theory Spec2Isabelle
  imports Complex_Main "HOL-Library.Char_ord" "HOL-Library.List_Lexorder"
    "HOL-Library.Product_Lexorder"
begin

section \<open>Values of the JavaScript runtime\<close>

text \<open>
  A thrown or rejected \<open>Error\<close> with its message. An asynchronous method of the source
  returns a promise; the model returns \<open>error + 'a\<close>, with \<open>Inl\<close> for a promise that
  rejects and \<open>Inr\<close> for one that resolves.
\<close>

datatype error = Error string

text \<open>
  Structured values, as \<open>JSON.stringify\<close> accepts them and \<open>JSON.parse\<close> returns them.
  \<open>JNull\<close> is the JavaScript \<open>null\<close>. Numbers are opaque payload to the cache layer and
  are kept as integers.
\<close>

datatype json =
    JNull
  | JBool bool
  | JNum int
  | JStr string
  | JArr "json list"
  | JObj "(string \<times> json) list"

text \<open>
  \<open>JSON.stringify\<close> and \<open>JSON.parse\<close> are built-ins of the runtime, not code of the
  repository: the methods that call them take them as a parameter. \<open>JSON_parse\<close> returns
  \<open>None\<close> where the built-in throws a \<open>SyntaxError\<close>.
\<close>

record runtime =
  JSON_stringify :: "json \<Rightarrow> string"
  JSON_parse :: "string \<Rightarrow> json option"

subsection \<open>Decimal text of integers\<close>

text \<open>\<open>String(n)\<close> for an integer \<open>n\<close>, as a template literal renders it.\<close>

function decimal :: "int \<Rightarrow> string" where
  "decimal n =
     (if n < 10 then [''0123456789'' ! nat n]
      else decimal (n div 10) @ [''0123456789'' ! nat (n mod 10)])"
  by pat_completeness auto
termination
  by (relation "measure nat") auto

declare decimal.simps [simp del]

definition String_of_int :: "int \<Rightarrow> string" where
  "String_of_int i = (if i < 0 then CHR ''-'' # decimal (- i) else decimal i)"

text \<open>
  The integer a stored string denotes for the store's counter commands: an optional
  minus sign and decimal digits in canonical form (no leading zero, no \<open>-0\<close>).
\<close>

definition digit_value :: "char \<Rightarrow> int option" where
  "digit_value c =
     (if CHR ''0'' \<le> c \<and> c \<le> CHR ''9'' then Some (of_char c - 48) else None)"

fun digits_value :: "int \<Rightarrow> string \<Rightarrow> int option" where
  "digits_value acc [] = Some acc"
| "digits_value acc (c # cs) =
     (case digit_value c of None \<Rightarrow> None | Some d \<Rightarrow> digits_value (10 * acc + d) cs)"

definition string_to_int :: "string \<Rightarrow> int option" where
  "string_to_int s =
     (case s of
        [] \<Rightarrow> None
      | c # cs \<Rightarrow>
          if c = CHR ''-'' then
            (case cs of
               [] \<Rightarrow> None
             | d # ds \<Rightarrow>
                 if d = CHR ''0'' then None
                 else (case digits_value 0 cs of None \<Rightarrow> None | Some n \<Rightarrow> Some (- n)))
          else if c = CHR ''0'' \<and> cs \<noteq> [] then None
          else (case digits_value 0 s of None \<Rightarrow> None | Some n \<Rightarrow> Some n))"

section \<open>The remote store\<close>

text \<open>
  The store is the external collaborator behind the \<open>redis\<close> package. It is modelled as
  a state machine with the command semantics the source relies on: a key holds a string
  or a sorted set, with an optional absolute expiry time in seconds of the server clock.
  \<open>faults\<close> is the schedule of transport failures: every call on the connection
  takes the head of the list, and a head \<open>Some e\<close> makes that call reject with \<open>e\<close>
  before it reaches the store. An empty schedule means no further failure.
\<close>

datatype rval = RString string | RZSet "(string \<times> int) list"

record redis =
  entries :: "string \<Rightarrow> (rval \<times> int option) option"
  clock :: int
  faults :: "error option list"

type_synonym 'a cmd = "redis \<Rightarrow> (error + 'a) \<times> redis"

text \<open>A key whose expiry time has been reached is absent.\<close>

definition lookup :: "redis \<Rightarrow> string \<Rightarrow> (rval \<times> int option) option" where
  "lookup r k =
     (case entries r k of
        None \<Rightarrow> None
      | Some (v, None) \<Rightarrow> Some (v, None)
      | Some (v, Some t) \<Rightarrow> if clock r < t then Some (v, Some t) else None)"

definition put :: "string \<Rightarrow> rval \<times> int option \<Rightarrow> redis \<Rightarrow> redis" where
  "put k e r = r\<lparr>entries := (entries r)(k \<mapsto> e)\<rparr>"

definition drop_key :: "string \<Rightarrow> redis \<Rightarrow> redis" where
  "drop_key k r = r\<lparr>entries := (entries r)(k := None)\<rparr>"

text \<open>The server clock moves on by \<open>d\<close> seconds.\<close>

definition elapse :: "int \<Rightarrow> redis \<Rightarrow> redis" where
  "elapse d r = r\<lparr>clock := clock r + d\<rparr>"

definition WRONGTYPE :: error where
  "WRONGTYPE = Error ''WRONGTYPE Operation against a key holding the wrong kind of value''"

subsection \<open>Commands as the server executes them\<close>

definition GET :: "string \<Rightarrow> string option cmd" where
  "GET k r =
     (case lookup r k of
        None \<Rightarrow> (Inr None, r)
      | Some (RString s, _) \<Rightarrow> (Inr (Some s), r)
      | Some (RZSet _, _) \<Rightarrow> (Inl WRONGTYPE, r))"

definition SET :: "string \<Rightarrow> string \<Rightarrow> string cmd" where
  "SET k v r = (Inr ''OK'', put k (RString v, None) r)"

definition SETEX :: "string \<Rightarrow> int \<Rightarrow> string \<Rightarrow> string cmd" where
  "SETEX k seconds v r =
     (if seconds \<le> 0 then (Inl (Error ''ERR invalid expire time in setex command''), r)
      else (Inr ''OK'', put k (RString v, Some (clock r + seconds)) r))"

definition DEL :: "string \<Rightarrow> int cmd" where
  "DEL k r =
     (case lookup r k of
        None \<Rightarrow> (Inr 0, drop_key k r)
      | Some _ \<Rightarrow> (Inr 1, drop_key k r))"

definition INCRBY :: "string \<Rightarrow> int \<Rightarrow> int cmd" where
  "INCRBY k amount r =
     (case lookup r k of
        None \<Rightarrow> (Inr amount, put k (RString (String_of_int amount), None) r)
      | Some (RZSet _, _) \<Rightarrow> (Inl WRONGTYPE, r)
      | Some (RString s, d) \<Rightarrow>
          (case string_to_int s of
             None \<Rightarrow> (Inl (Error ''ERR value is not an integer or out of range''), r)
           | Some v \<Rightarrow>
               if v < - (2 ^ 63) \<or> 2 ^ 63 \<le> v then
                 (Inl (Error ''ERR value is not an integer or out of range''), r)
               else if v + amount < - (2 ^ 63) \<or> 2 ^ 63 \<le> v + amount then
                 (Inl (Error ''ERR increment or decrement would overflow''), r)
               else (Inr (v + amount), put k (RString (String_of_int (v + amount)), d) r)))"

definition EXPIRE :: "string \<Rightarrow> int \<Rightarrow> int cmd" where
  "EXPIRE k seconds r =
     (case lookup r k of
        None \<Rightarrow> (Inr 0, r)
      | Some (v, _) \<Rightarrow>
          if seconds \<le> 0 then (Inr 1, drop_key k r)
          else (Inr 1, put k (v, Some (clock r + seconds)) r))"

definition TTL :: "string \<Rightarrow> int cmd" where
  "TTL k r =
     (case lookup r k of
        None \<Rightarrow> (Inr (- 2), r)
      | Some (_, None) \<Rightarrow> (Inr (- 1), r)
      | Some (_, Some t) \<Rightarrow> (Inr (t - clock r), r))"

definition EXISTS :: "string \<Rightarrow> int cmd" where
  "EXISTS k r = (case lookup r k of None \<Rightarrow> (Inr 0, r) | Some _ \<Rightarrow> (Inr 1, r))"

text \<open>A sorted set is kept as its members with their scores, one pair for each member.\<close>

definition ZADD :: "string \<Rightarrow> int \<Rightarrow> string \<Rightarrow> int cmd" where
  "ZADD k score member r =
     (case lookup r k of
        None \<Rightarrow> (Inr 1, put k (RZSet [(member, score)], None) r)
      | Some (RString _, _) \<Rightarrow> (Inl WRONGTYPE, r)
      | Some (RZSet zs, d) \<Rightarrow>
          if member \<in> fst ` set zs then
            (Inr 0, put k (RZSet (map (\<lambda>(m, s). if m = member then (m, score) else (m, s)) zs), d) r)
          else (Inr 1, put k (RZSet (zs @ [(member, score)]), d) r))"

definition ZREMRANGEBYSCORE :: "string \<Rightarrow> int \<Rightarrow> int \<Rightarrow> int cmd" where
  "ZREMRANGEBYSCORE k lo hi r =
     (case lookup r k of
        None \<Rightarrow> (Inr 0, r)
      | Some (RString _, _) \<Rightarrow> (Inl WRONGTYPE, r)
      | Some (RZSet zs, d) \<Rightarrow>
          (let kept = filter (\<lambda>(m, s). \<not> (lo \<le> s \<and> s \<le> hi)) zs
           in (Inr (int (length zs) - int (length kept)),
               if kept = [] then drop_key k r else put k (RZSet kept, d) r)))"

definition ZCARD :: "string \<Rightarrow> int cmd" where
  "ZCARD k r =
     (case lookup r k of
        None \<Rightarrow> (Inr 0, r)
      | Some (RString _, _) \<Rightarrow> (Inl WRONGTYPE, r)
      | Some (RZSet zs, _) \<Rightarrow> (Inr (int (length zs)), r))"

text \<open>
  \<open>ZRANGE\<close> by rank: members in the order of their scores, then of their bytes; a
  negative index counts from the end.
\<close>

definition ZRANGE :: "string \<Rightarrow> int \<Rightarrow> int \<Rightarrow> string list cmd" where
  "ZRANGE k start stop r =
     (case lookup r k of
        None \<Rightarrow> (Inr [], r)
      | Some (RString _, _) \<Rightarrow> (Inl WRONGTYPE, r)
      | Some (RZSet zs, _) \<Rightarrow>
          (let n = int (length zs);
               ordered = map fst (sort_key (\<lambda>(m, s). (s, m)) zs);
               first = (if start < 0 then max 0 (n + start) else start);
               last = (if stop < 0 then n + stop else min stop (n - 1))
           in if last < first \<or> n \<le> first then (Inr [], r)
              else (Inr (take (nat (last - first + 1)) (drop (nat first) ordered)), r)))"

subsection \<open>Calls through the connection\<close>

text \<open>
  A call of the \<open>redis\<close> package's client: it takes the next entry of the fault schedule
  and either rejects with it or runs the command on the server.
\<close>

definition call :: "'a cmd \<Rightarrow> 'a cmd" where
  "call f r =
     (case faults r of
        [] \<Rightarrow> f r
      | None # fs \<Rightarrow> f (r\<lparr>faults := fs\<rparr>)
      | Some e # fs \<Rightarrow> (Inl e, r\<lparr>faults := fs\<rparr>))"

section \<open>EntrolyticsRedisClient\<close>

text \<open>
  The fields of the class that its methods read or write. \<open>hits\<close> and \<open>misses\<close> are the
  two counters of \<open>stats\<close>. The model is sequential, one call at a time, so the
  bookkeeping of a connection attempt in flight (\<open>_isConnecting\<close>, \<open>_connectPromise\<close>)
  has no state of its own.
\<close>

record client =
  prefix :: string
  defaultTTL :: int
  isConnected :: bool
  hits :: nat
  misses :: nat

text \<open>A line of the \<open>debug\<close> logger: the message and the error passed with it.\<close>

datatype log_line = Line string "error option"

text \<open>
  What lives outside the client object: the remote store behind the connection, the
  output of the logger, the module-level map \<open>rateLimitStore\<close> of \<open>rate-limit.ts\<close>, and
  the reading of \<open>Date.now()\<close> in milliseconds.
\<close>

record world =
  server :: redis
  logged :: "log_line list"
  rateLimitStore :: "string \<Rightarrow> int list option"
  dateNow :: int

type_synonym 'a promise = "(error + 'a) \<times> client \<times> world"

definition DELETED :: string where
  "DELETED = ''__DELETED__''"

definition CACHE_PREFIX :: string where
  "CACHE_PREFIX = ''entrolytics:''"

text \<open>The constructor, with its defaults for the options left out.\<close>

definition new_client :: "string option \<Rightarrow> int option \<Rightarrow> client" where
  "new_client prefix_opt ttl_opt =
     \<lparr>prefix = (case prefix_opt of None \<Rightarrow> CACHE_PREFIX | Some p \<Rightarrow> p),
      defaultTTL = (case ttl_opt of None \<Rightarrow> 3600 | Some t \<Rightarrow> t),
      isConnected = False, hits = 0, misses = 0\<rparr>"

text \<open>The logger \<open>log\<close> of the source, under a name apart from the logarithm of HOL.\<close>

definition debug_log :: "string \<Rightarrow> error \<Rightarrow> world \<Rightarrow> world" where
  "debug_log msg err w = w\<lparr>logged := logged w @ [Line msg (Some err)]\<rparr>"

definition prefixKey :: "client \<Rightarrow> string \<Rightarrow> string" where
  "prefixKey c key = prefix c @ key"

datatype TTLOption =
    Seconds int
  | Options (EX: "int option") (PX: "int option") (EXAT: "int option") (PXAT: "int option")

text \<open>\<open>Math.ceil(x / 1000)\<close> for an integer \<open>x\<close>.\<close>

definition ceil_div_1000 :: "int \<Rightarrow> int" where
  "ceil_div_1000 x = - ((- x) div 1000)"

definition extractTTL :: "TTLOption option \<Rightarrow> int \<Rightarrow> int option" where
  "extractTTL t now_ms =
     (case t of
        None \<Rightarrow> None
      | Some (Seconds n) \<Rightarrow> Some n
      | Some (Options ex px exat pxat) \<Rightarrow>
          (case ex of
             Some e \<Rightarrow> Some e
           | None \<Rightarrow>
               (case px of
                  Some p \<Rightarrow> Some (ceil_div_1000 p)
                | None \<Rightarrow>
                    (case exat of
                       Some a \<Rightarrow> Some (max 0 (a - now_ms div 1000))
                     | None \<Rightarrow>
                         (case pxat of
                            Some a \<Rightarrow> Some (max 0 (ceil_div_1000 (a - now_ms)))
                          | None \<Rightarrow> None)))))"

text \<open>
  \<open>connect\<close>: nothing to do when connected; otherwise one attempt on the connection,
  which takes the next entry of the fault schedule.
\<close>

definition connect :: "client \<Rightarrow> world \<Rightarrow> unit promise" where
  "connect c w =
     (if isConnected c then (Inr (), c, w)
      else
        (case call (\<lambda>r. (Inr (), r)) (server w) of
           (Inl err, s) \<Rightarrow> (Inl err, c, w\<lparr>server := s\<rparr>)
         | (Inr _, s) \<Rightarrow>
             (Inr (), c\<lparr>isConnected := True\<rparr>,
              w\<lparr>server := s, logged := logged w @ [Line ''Redis connected'' None]\<rparr>)))"

subsection \<open>The two shapes of a guarded store call\<close>

text \<open>
  Every key-value method is \<open>try { await this.connect(); ... } catch (err) { log(msg, err);
  return dflt; }\<close>. What the \<open>catch\<close> sees depends on how the store call is written.

  \<open>awaited\<close>: the method writes \<open>const x = await this._client.cmd(...)\<close>. The rejection
  of the store call is thrown inside the \<open>try\<close> and caught.

  \<open>returned\<close>: the method writes \<open>return this._client.cmd(...)\<close> with no \<open>await\<close>. The
  \<open>try\<close> block is left with the pending promise as the result, so a later rejection of
  that promise is not caught: it becomes the rejection of the method's own promise. Only
  a failure of \<open>connect\<close>, which is awaited, reaches the \<open>catch\<close>.
\<close>

definition awaited :: "string \<Rightarrow> 'b \<Rightarrow> ('a \<Rightarrow> 'b) \<Rightarrow> (client \<Rightarrow> world \<Rightarrow> 'a cmd) \<Rightarrow> client \<Rightarrow> world \<Rightarrow> 'b promise" where
  "awaited msg dflt k cmd c w =
     (case connect c w of
        (Inl err, c1, w1) \<Rightarrow> (Inr dflt, c1, debug_log msg err w1)
      | (Inr _, c1, w1) \<Rightarrow>
          (case cmd c1 w1 (server w1) of
             (Inl err, s) \<Rightarrow> (Inr dflt, c1, debug_log msg err (w1\<lparr>server := s\<rparr>))
           | (Inr x, s) \<Rightarrow> (Inr (k x), c1, w1\<lparr>server := s\<rparr>)))"

definition returned :: "string \<Rightarrow> 'b \<Rightarrow> ('a \<Rightarrow> 'b) \<Rightarrow> (client \<Rightarrow> world \<Rightarrow> 'a cmd) \<Rightarrow> client \<Rightarrow> world \<Rightarrow> 'b promise" where
  "returned msg dflt k cmd c w =
     (case connect c w of
        (Inl err, c1, w1) \<Rightarrow> (Inr dflt, c1, debug_log msg err w1)
      | (Inr _, c1, w1) \<Rightarrow>
          (case cmd c1 w1 (server w1) of
             (Inl err, s) \<Rightarrow> (Inl err, c1, w1\<lparr>server := s\<rparr>)
           | (Inr x, s) \<Rightarrow> (Inr (k x), c1, w1\<lparr>server := s\<rparr>)))"

subsection \<open>Key-value methods\<close>

definition get :: "runtime \<Rightarrow> client \<Rightarrow> string \<Rightarrow> world \<Rightarrow> json promise" where
  "get rt c key =
     awaited ''Redis get error:'' JNull
       (\<lambda>data. case data of
           None \<Rightarrow> JNull
         | Some d \<Rightarrow> (case JSON_parse rt d of Some v \<Rightarrow> v | None \<Rightarrow> JStr d))
       (\<lambda>c1 w1. call (GET (prefixKey c1 key))) c"

definition set_value :: "runtime \<Rightarrow> client \<Rightarrow> string \<Rightarrow> json \<Rightarrow> TTLOption option \<Rightarrow> world \<Rightarrow> string option promise" where
  "set_value rt c key val t =
     returned ''Redis set error:'' None Some
       (\<lambda>c1 w1.
          let serialized = JSON_stringify rt val;
              prefixedKey = prefixKey c1 key;
              ttlSeconds = (case extractTTL t (dateNow w1) of Some n \<Rightarrow> n | None \<Rightarrow> defaultTTL c1)
          in if ttlSeconds > 0 then call (SETEX prefixedKey ttlSeconds serialized)
             else call (SET prefixedKey serialized)) c"

definition del :: "client \<Rightarrow> string \<Rightarrow> world \<Rightarrow> int promise" where
  "del c key = returned ''Redis del error:'' 0 id (\<lambda>c1 w1. call (DEL (prefixKey c1 key))) c"

definition incr :: "client \<Rightarrow> string \<Rightarrow> world \<Rightarrow> int promise" where
  "incr c key = returned ''Redis incr error:'' 0 id (\<lambda>c1 w1. call (INCRBY (prefixKey c1 key) 1)) c"

definition incrBy :: "client \<Rightarrow> string \<Rightarrow> int \<Rightarrow> world \<Rightarrow> int promise" where
  "incrBy c key amount =
     returned ''Redis incrBy error:'' 0 id (\<lambda>c1 w1. call (INCRBY (prefixKey c1 key) amount)) c"

definition decr :: "client \<Rightarrow> string \<Rightarrow> world \<Rightarrow> int promise" where
  "decr c key = returned ''Redis decr error:'' 0 id (\<lambda>c1 w1. call (INCRBY (prefixKey c1 key) (- 1))) c"

definition decrBy :: "client \<Rightarrow> string \<Rightarrow> int \<Rightarrow> world \<Rightarrow> int promise" where
  "decrBy c key amount =
     returned ''Redis decrBy error:'' 0 id (\<lambda>c1 w1. call (INCRBY (prefixKey c1 key) (- amount))) c"

definition expire :: "client \<Rightarrow> string \<Rightarrow> int \<Rightarrow> world \<Rightarrow> bool promise" where
  "expire c key seconds =
     awaited ''Redis expire error:'' False (\<lambda>result. result = 1)
       (\<lambda>c1 w1. call (EXPIRE (prefixKey c1 key) seconds)) c"

definition ttl :: "client \<Rightarrow> string \<Rightarrow> world \<Rightarrow> int promise" where
  "ttl c key = returned ''Redis ttl error:'' (- 1) id (\<lambda>c1 w1. call (TTL (prefixKey c1 key))) c"

definition exists :: "client \<Rightarrow> string \<Rightarrow> world \<Rightarrow> bool promise" where
  "exists c key =
     awaited ''Redis exists error:'' False (\<lambda>result. result = 1)
       (\<lambda>c1 w1. call (EXISTS (prefixKey c1 key))) c"

subsection \<open>Sorted-set methods\<close>

definition zAdd :: "client \<Rightarrow> string \<Rightarrow> int \<Rightarrow> string \<Rightarrow> world \<Rightarrow> int promise" where
  "zAdd c key score val =
     returned ''Redis zAdd error:'' 0 id (\<lambda>c1 w1. call (ZADD (prefixKey c1 key) score val)) c"

definition zRemRangeByScore :: "client \<Rightarrow> string \<Rightarrow> int \<Rightarrow> int \<Rightarrow> world \<Rightarrow> int promise" where
  "zRemRangeByScore c key lo hi =
     returned ''Redis zRemRangeByScore error:'' 0 id
       (\<lambda>c1 w1. call (ZREMRANGEBYSCORE (prefixKey c1 key) lo hi)) c"

definition zCard :: "client \<Rightarrow> string \<Rightarrow> world \<Rightarrow> int promise" where
  "zCard c key = returned ''Redis zCard error:'' 0 id (\<lambda>c1 w1. call (ZCARD (prefixKey c1 key))) c"

definition zRange :: "client \<Rightarrow> string \<Rightarrow> int \<Rightarrow> int \<Rightarrow> world \<Rightarrow> string list promise" where
  "zRange c key start stop =
     returned ''Redis zRange error:'' [] id
       (\<lambda>c1 w1. call (ZRANGE (prefixKey c1 key) start stop)) c"

subsection \<open>The counter limiter of the class\<close>

text \<open>Both store calls of \<open>rateLimit\<close> are awaited inside the \<open>try\<close>.\<close>

definition client_rateLimit :: "client \<Rightarrow> string \<Rightarrow> int \<Rightarrow> int \<Rightarrow> world \<Rightarrow> bool promise" where
  "client_rateLimit c key lmt windowSeconds w =
     (case connect c w of
        (Inl err, c1, w1) \<Rightarrow> (Inr False, c1, debug_log ''Redis rateLimit error:'' err w1)
      | (Inr _, c1, w1) \<Rightarrow>
          (let prefixedKey = prefixKey c1 (''ratelimit:'' @ key) in
           case call (INCRBY prefixedKey 1) (server w1) of
             (Inl err, s) \<Rightarrow> (Inr False, c1, debug_log ''Redis rateLimit error:'' err (w1\<lparr>server := s\<rparr>))
           | (Inr current, s) \<Rightarrow>
               if current = 1 then
                 (case call (EXPIRE prefixedKey windowSeconds) s of
                    (Inl err, s2) \<Rightarrow>
                      (Inr False, c1, debug_log ''Redis rateLimit error:'' err (w1\<lparr>server := s2\<rparr>))
                  | (Inr _, s2) \<Rightarrow> (Inr (current > lmt), c1, w1\<lparr>server := s2\<rparr>))
               else (Inr (current > lmt), c1, w1\<lparr>server := s\<rparr>)))"

subsection \<open>Cache-through\<close>

text \<open>\<open>store\<close> passes a numeric \<open>ttl\<close>, when given, on to \<open>set\<close>.\<close>

definition store :: "runtime \<Rightarrow> client \<Rightarrow> string \<Rightarrow> json \<Rightarrow> int option \<Rightarrow> world \<Rightarrow> string option promise" where
  "store rt c key data t = set_value rt c key data (map_option Seconds t)"

text \<open>
  The caller's \<open>query\<close> is a computation on a state \<open>'q\<close> of the caller's own: it returns
  a value (\<open>None\<close> for \<open>undefined\<close>) or throws, and leaves its mark on \<open>'q\<close>. A \<open>fetch\<close>
  that hands back the caller's state as it got it has not invoked \<open>query\<close>.
  The \<open>fetch\<close> result \<open>None\<close> is \<open>undefined\<close>, \<open>Some JNull\<close> is \<open>null\<close>.
\<close>

type_synonym 'q query = "'q \<Rightarrow> (error + json option) \<times> 'q"

definition fetch :: "runtime \<Rightarrow> client \<Rightarrow> string \<Rightarrow> 'q query option \<Rightarrow> int option \<Rightarrow> 'q \<Rightarrow> world \<Rightarrow> (error + json option) \<times> client \<times> 'q \<times> world" where
  "fetch rt c key query t q w =
     (case get rt c key w of
        (Inl err, c1, w1) \<Rightarrow> (Inl err, c1, q, w1)
      | (Inr result, c1, w1) \<Rightarrow>
          if result = JStr DELETED then (Inr (Some JNull), c1\<lparr>hits := hits c1 + 1\<rparr>, q, w1)
          else if result \<noteq> JNull then (Inr (Some result), c1\<lparr>hits := hits c1 + 1\<rparr>, q, w1)
          else
            (let c2 = c1\<lparr>misses := misses c1 + 1\<rparr> in
             case query of
               None \<Rightarrow> (Inr (Some JNull), c2, q, w1)
             | Some f \<Rightarrow>
                 (case f q of
                    (Inl err, q1) \<Rightarrow> (Inl err, c2, q1, w1)
                  | (Inr None, q1) \<Rightarrow> (Inr None, c2, q1, w1)
                  | (Inr (Some JNull), q1) \<Rightarrow> (Inr (Some JNull), c2, q1, w1)
                  | (Inr (Some data), q1) \<Rightarrow>
                      (case store rt c2 key data t w1 of
                         (Inl err, c3, w3) \<Rightarrow> (Inl err, c3, q1, w3)
                       | (Inr _, c3, w3) \<Rightarrow> (Inr (Some data), c3, q1, w3)))))"

text \<open>
  \<open>remove\<close> resolves to what \<open>set\<close> resolves to (\<open>Inl\<close>) or to what \<open>del\<close> resolves to
  (\<open>Inr\<close>).
\<close>

definition remove :: "runtime \<Rightarrow> client \<Rightarrow> string \<Rightarrow> bool \<Rightarrow> world \<Rightarrow> (string option + int) promise" where
  "remove rt c key soft w =
     (if soft then
        (case set_value rt c key (JStr DELETED) None w of (res, c1, w1) \<Rightarrow> (map_sum id Inl res, c1, w1))
      else (case del c key w of (res, c1, w1) \<Rightarrow> (map_sum id Inr res, c1, w1)))"

subsection \<open>Remaining count of the counter limiter\<close>

text \<open>
  \<open>parseInt(s, 10)\<close>: leading white space, an optional sign, then the longest run of
  decimal digits; \<open>None\<close> is \<open>NaN\<close>, the result when there is no digit.
\<close>

definition is_space :: "char \<Rightarrow> bool" where
  "is_space c = (c = CHR '' '' \<or> c = CHR 0x09 \<or> c = CHR 0x0A \<or> c = CHR 0x0B \<or> c = CHR 0x0C \<or> c = CHR 0x0D)"

definition parseInt :: "string \<Rightarrow> int option" where
  "parseInt s =
     (let t = dropWhile is_space s;
          neg = (case t of [] \<Rightarrow> False | c # _ \<Rightarrow> c = CHR ''-'');
          u = (case t of [] \<Rightarrow> [] | c # cs \<Rightarrow> if c = CHR ''-'' \<or> c = CHR ''+'' then cs else t);
          ds = takeWhile (\<lambda>c. digit_value c \<noteq> None) u
      in if ds = [] then None
         else (case digits_value 0 ds of
                 None \<Rightarrow> None
               | Some n \<Rightarrow> Some (if neg then - n else n)))"

text \<open>The result \<open>None\<close> is \<open>NaN\<close>; an empty string is falsy and counts as 0.\<close>

definition getRateLimitRemaining :: "client \<Rightarrow> string \<Rightarrow> int \<Rightarrow> world \<Rightarrow> int option promise" where
  "getRateLimitRemaining c key lmt =
     awaited ''Redis getRateLimitRemaining error:'' (Some lmt)
       (\<lambda>current.
          case current of
            None \<Rightarrow> Some (max 0 (lmt - 0))
          | Some s \<Rightarrow>
              if s = [] then Some (max 0 (lmt - 0))
              else (case parseInt s of None \<Rightarrow> None | Some count \<Rightarrow> Some (max 0 (lmt - count))))
       (\<lambda>c1 w1. call (GET (prefixKey c1 (''ratelimit:'' @ key)))) c"

section \<open>rate-limit.ts\<close>

record RateLimitConfig =
  bucket :: string
  limit :: int
  window :: int

text \<open>The field \<open>limit\<close> of the result is \<open>limit'\<close> here, apart from the one of the config.\<close>

record RateLimitResult =
  success :: bool
  limit' :: int
  remaining :: int
  reset :: int

type_synonym window_map = "string \<Rightarrow> int list option"

text \<open>
  \<open>cleanupRateLimitStore\<close> visits every entry of the map once; it replaces or deletes
  only the entry it is visiting, so the loop is one step on each key.
\<close>

definition cleanupRateLimitStore :: "int \<Rightarrow> window_map \<Rightarrow> window_map" where
  "cleanupRateLimitStore threshold m =
     (\<lambda>key. case m key of
        None \<Rightarrow> None
      | Some timestamps \<Rightarrow>
          (let filtered = filter (\<lambda>ts. ts > threshold) timestamps
           in if length filtered = 0 then None else Some filtered))"

text \<open>\<open>rnd\<close> is the value \<open>Math.random()\<close> returns in this call.\<close>

definition inMemoryRateLimit :: "string \<Rightarrow> RateLimitConfig \<Rightarrow> int \<Rightarrow> int \<Rightarrow> real \<Rightarrow> window_map \<Rightarrow> RateLimitResult \<times> window_map" where
  "inMemoryRateLimit key config now windowStart rnd m =
     (let timestamps = filter (\<lambda>ts. ts > windowStart) (case m key of None \<Rightarrow> [] | Some ts \<Rightarrow> ts)
      in if int (length timestamps) \<ge> limit config then
           (\<lparr>success = False, limit' = limit config, remaining = 0, reset = now + window config\<rparr>,
            m(key \<mapsto> timestamps))
         else
           (let pushed = timestamps @ [now];
                m1 = m(key \<mapsto> pushed);
                m2 = (if rnd < 1 / 100 then cleanupRateLimitStore windowStart m1 else m1)
            in (\<lparr>success = True, limit' = limit config,
                 remaining = limit config - int (length pushed), reset = now + window config\<rparr>,
                m2)))"

subsection \<open>The transaction of the distributed limiter\<close>

text \<open>
  \<open>multi()\<close> queues commands and \<open>exec()\<close> sends them as one call: the server runs all of
  them in order, and the call rejects when one of the replies is an error.
\<close>

fun run_queued :: "int cmd list \<Rightarrow> redis \<Rightarrow> (error + int) list \<times> redis" where
  "run_queued [] r = ([], r)"
| "run_queued (f # fs) r =
     (case f r of (reply, r1) \<Rightarrow>
        (case run_queued fs r1 of (replies, r2) \<Rightarrow> (reply # replies, r2)))"

fun replies_or_error :: "(error + int) list \<Rightarrow> error + int list" where
  "replies_or_error [] = Inr []"
| "replies_or_error (Inl e # _) = Inl e"
| "replies_or_error (Inr x # rs) =
     (case replies_or_error rs of Inl e \<Rightarrow> Inl e | Inr xs \<Rightarrow> Inr (x # xs))"

definition exec :: "int cmd list \<Rightarrow> int list cmd" where
  "exec queued =
     call (\<lambda>r. case run_queued queued r of (replies, r1) \<Rightarrow> (replies_or_error replies, r1))"

text \<open>
  \<open>rateLimit\<close>. \<open>token\<close> is the text of the \<open>Math.random()\<close> value in the member name,
  \<open>rnd\<close> the \<open>Math.random()\<close> value of the in-memory path. The function reads the client
  (\<open>isConnected\<close>, \<open>client\<close>, \<open>prefix\<close>) and does not change it.
\<close>

definition rateLimit :: "client option \<Rightarrow> string \<Rightarrow> RateLimitConfig \<Rightarrow> string \<Rightarrow> real \<Rightarrow> world \<Rightarrow> (error + RateLimitResult) \<times> world" where
  "rateLimit cl identifier config token rnd w =
     (let key = ''ratelimit:'' @ bucket config @ '':'' @ identifier;
          now = dateNow w div 1000;
          windowStart = now - window config;
          fallback = (\<lambda>w1. case inMemoryRateLimit key config now windowStart rnd (rateLimitStore w1) of
                        (res, m) \<Rightarrow> (Inr res, w1\<lparr>rateLimitStore := m\<rparr>))
      in case cl of
           None \<Rightarrow> fallback w
         | Some c \<Rightarrow>
             if isConnected c then
               (let prefixedKey = prefix c @ key in
                case exec [ZREMRANGEBYSCORE prefixedKey 0 windowStart,
                           ZCARD prefixedKey,
                           ZADD prefixedKey now (String_of_int now @ '':'' @ token),
                           EXPIRE prefixedKey (window config)] (server w) of
                  (Inl err, s) \<Rightarrow>
                    fallback (debug_log ''Redis rate limiting error, falling back to in-memory:'' err
                                (w\<lparr>server := s\<rparr>))
                | (Inr results, s) \<Rightarrow>
                    (let count = (if 1 < length results then results ! 1 else 0);
                         remaining = max 0 (limit config - count - 1);
                         reset = now + window config
                     in if count \<ge> limit config then
                          (Inr \<lparr>success = False, limit' = limit config, remaining = 0, reset = reset\<rparr>,
                           w\<lparr>server := s\<rparr>)
                        else
                          (Inr \<lparr>success = True, limit' = limit config, remaining = remaining,
                                reset = reset\<rparr>,
                           w\<lparr>server := s\<rparr>)))
             else fallback w)"

definition rateLimitSimple :: "client option \<Rightarrow> string \<Rightarrow> int \<Rightarrow> int \<Rightarrow> world \<Rightarrow> (error + bool) \<times> client option \<times> world" where
  "rateLimitSimple cl identifier lmt windowSeconds w =
     (case cl of
        None \<Rightarrow>
          (let key = ''simple:'' @ identifier;
               now = dateNow w div 1000;
               windowStart = now - windowSeconds;
               timestamps = filter (\<lambda>ts. ts > windowStart)
                              (case rateLimitStore w key of None \<Rightarrow> [] | Some ts \<Rightarrow> ts)
           in if int (length timestamps) \<ge> lmt then (Inr True, None, w)
              else (Inr False, None, w\<lparr>rateLimitStore := (rateLimitStore w)(key \<mapsto> timestamps @ [now])\<rparr>))
      | Some c \<Rightarrow>
          (case client_rateLimit c identifier lmt windowSeconds w of
             (res, c1, w1) \<Rightarrow> (res, Some c1, w1)))"

text \<open>\<open>createRateLimiter(client).getRemaining\<close>; the result \<open>None\<close> is \<open>NaN\<close>.\<close>

definition getRemaining :: "client option \<Rightarrow> string \<Rightarrow> RateLimitConfig \<Rightarrow> world \<Rightarrow> (error + int option) \<times> client option \<times> world" where
  "getRemaining cl identifier config w =
     (case cl of
        None \<Rightarrow>
          (let key = ''ratelimit:'' @ bucket config @ '':'' @ identifier;
               timestamps = (case rateLimitStore w key of None \<Rightarrow> [] | Some ts \<Rightarrow> ts);
               windowStart = dateNow w div 1000 - window config;
               validTimestamps = filter (\<lambda>ts. ts > windowStart) timestamps
           in (Inr (Some (max 0 (limit config - int (length validTimestamps)))), None, w))
      | Some c \<Rightarrow>
          (case getRateLimitRemaining c (bucket config @ '':'' @ identifier) (limit config) w of
             (res, c1, w1) \<Rightarrow> (res, Some c1, w1)))"

section \<open>A JSON codec to run the model on\<close>

text \<open>
  One runtime to evaluate the model at concrete inputs: compact JSON text with integer
  numbers, and a recursive-descent reader for it. The theorems that hold for every
  runtime do not depend on it.
\<close>

definition quote :: char where
  "quote = CHR 0x22"

definition backslash :: char where
  "backslash = CHR 0x5C"

fun escape :: "string \<Rightarrow> string" where
  "escape [] = []"
| "escape (c # cs) =
     (if c = quote \<or> c = backslash then backslash # c # escape cs else c # escape cs)"

fun join :: "string \<Rightarrow> string list \<Rightarrow> string" where
  "join sep [] = []"
| "join sep [x] = x"
| "join sep (x # y # ys) = x @ sep @ join sep (y # ys)"

fun json_text :: "json \<Rightarrow> string" where
  "json_text JNull = ''null''"
| "json_text (JBool b) = (if b then ''true'' else ''false'')"
| "json_text (JNum n) = String_of_int n"
| "json_text (JStr s) = quote # escape s @ [quote]"
| "json_text (JArr xs) = ''['' @ join '','' (map json_text xs) @ '']''"
| "json_text (JObj kvs) =
     ''{'' @ join '','' (map (\<lambda>kv. quote # escape (fst kv) @ [quote] @ '':'' @ json_text (snd kv)) kvs)
       @ ''}''"

text \<open>The text of a string after its opening quote: the string and what follows it.\<close>

fun read_string :: "string \<Rightarrow> (string \<times> string) option" where
  "read_string [] = None"
| "read_string [c] = (if c = quote then Some ([], []) else None)"
| "read_string (c # d # cs) =
     (if c = quote then Some ([], d # cs)
      else if c = backslash then
        (if d = quote \<or> d = backslash then
           (case read_string cs of None \<Rightarrow> None | Some (s, rest) \<Rightarrow> Some (d # s, rest))
         else None)
      else (case read_string (d # cs) of None \<Rightarrow> None | Some (s, rest) \<Rightarrow> Some (c # s, rest)))"

definition read_number :: "string \<Rightarrow> (json \<times> string) option" where
  "read_number s =
     (let neg = (case s of [] \<Rightarrow> False | c # _ \<Rightarrow> c = CHR ''-'');
          u = (if neg then tl s else s);
          ds = takeWhile (\<lambda>c. digit_value c \<noteq> None) u
      in case string_to_int ((if neg then ''-'' else []) @ ds) of
           None \<Rightarrow> None
         | Some n \<Rightarrow> Some (JNum n, dropWhile (\<lambda>c. digit_value c \<noteq> None) u))"

definition starts_with :: "string \<Rightarrow> string \<Rightarrow> bool" where
  "starts_with p s = (take (length p) s = p)"

text \<open>The first argument bounds the depth of the descent.\<close>

fun read_value :: "nat \<Rightarrow> string \<Rightarrow> (json \<times> string) option"
  and read_elements :: "nat \<Rightarrow> string \<Rightarrow> (json list \<times> string) option"
  and read_members :: "nat \<Rightarrow> string \<Rightarrow> ((string \<times> json) list \<times> string) option" where
  "read_value 0 s = None"
| "read_value (Suc n) s =
     (if starts_with ''null'' s then Some (JNull, drop 4 s)
      else if starts_with ''true'' s then Some (JBool True, drop 4 s)
      else if starts_with ''false'' s then Some (JBool False, drop 5 s)
      else if starts_with ''[]'' s then Some (JArr [], drop 2 s)
      else if starts_with ''{}'' s then Some (JObj [], drop 2 s)
      else
        (case s of
           [] \<Rightarrow> None
         | c # cs \<Rightarrow>
             if c = quote then
               (case read_string cs of None \<Rightarrow> None | Some (str, rest) \<Rightarrow> Some (JStr str, rest))
             else if c = CHR ''['' then
               (case read_elements n cs of None \<Rightarrow> None | Some (xs, rest) \<Rightarrow> Some (JArr xs, rest))
             else if c = CHR ''{'' then
               (case read_members n cs of None \<Rightarrow> None | Some (kvs, rest) \<Rightarrow> Some (JObj kvs, rest))
             else read_number s))"
| "read_elements 0 s = None"
| "read_elements (Suc n) s =
     (case read_value n s of
        None \<Rightarrow> None
      | Some (x, rest) \<Rightarrow>
          (case rest of
             [] \<Rightarrow> None
           | c # cs \<Rightarrow>
               if c = CHR '']'' then Some ([x], cs)
               else if c = CHR '','' then
                 (case read_elements n cs of None \<Rightarrow> None | Some (xs, r) \<Rightarrow> Some (x # xs, r))
               else None))"
| "read_members 0 s = None"
| "read_members (Suc n) s =
     (case s of
        [] \<Rightarrow> None
      | q # s1 \<Rightarrow>
          if q \<noteq> quote then None
          else
            (case read_string s1 of
               None \<Rightarrow> None
             | Some (k, s2) \<Rightarrow>
                 (case s2 of
                    [] \<Rightarrow> None
                  | colon # s3 \<Rightarrow>
                      if colon \<noteq> CHR '':'' then None
                      else
                        (case read_value n s3 of
                           None \<Rightarrow> None
                         | Some (v, rest) \<Rightarrow>
                             (case rest of
                                [] \<Rightarrow> None
                              | c # cs \<Rightarrow>
                                  if c = CHR ''}'' then Some ([(k, v)], cs)
                                  else if c = CHR '','' then
                                    (case read_members n cs of
                                       None \<Rightarrow> None
                                     | Some (kvs, r) \<Rightarrow> Some ((k, v) # kvs, r))
                                  else None)))))"

definition json_read :: "string \<Rightarrow> json option" where
  "json_read s =
     (case read_value (Suc (length s)) s of
        Some (v, []) \<Rightarrow> Some v
      | _ \<Rightarrow> None)"

definition js :: runtime where
  "js = \<lparr>JSON_stringify = json_text, JSON_parse = json_read\<rparr>"

section \<open>Terms of the statements\<close>

text \<open>The sequence the in-process map holds for a key; a key not in the map has none.\<close>

definition stored :: "window_map \<Rightarrow> string \<Rightarrow> int list" where
  "stored m key = (case m key of None \<Rightarrow> [] | Some ts \<Rightarrow> ts)"

text \<open>
  Calls of \<open>rateLimit\<close> in immediate succession, the clock standing still: one call for
  each pair of random draws, each on the state the one before left.
\<close>

fun rateLimit_calls :: "client option \<Rightarrow> string \<Rightarrow> RateLimitConfig \<Rightarrow> (string \<times> real) list \<Rightarrow> world \<Rightarrow> (error + RateLimitResult) list \<times> world" where
  "rateLimit_calls cl identifier config [] w = ([], w)"
| "rateLimit_calls cl identifier config (d # ds) w =
     (case rateLimit cl identifier config (fst d) (snd d) w of
        (res, w1) \<Rightarrow>
          (case rateLimit_calls cl identifier config ds w1 of (rs, w2) \<Rightarrow> (res # rs, w2)))"

text \<open>An empty store with nothing scheduled to fail, and a process that has logged nothing.\<close>

definition empty_redis :: redis where
  "empty_redis = \<lparr>entries = (\<lambda>k. None), clock = 0, faults = []\<rparr>"

definition empty_world :: world where
  "empty_world =
     \<lparr>server = empty_redis, logged = [], rateLimitStore = (\<lambda>k. None), dateNow = 1700000000123\<rparr>"

text \<open>The members, with their scores, of the sorted set a key holds; none for another key.\<close>

definition members :: "redis \<Rightarrow> string \<Rightarrow> (string \<times> int) list" where
  "members r k = (case lookup r k of Some (RZSet zs, _) \<Rightarrow> zs | _ \<Rightarrow> [])"

text \<open>
  The number of members a sorted set is left with when those with a score from 0 to
  \<open>windowStart\<close> are removed.
\<close>

definition count_after_purge :: "redis \<Rightarrow> string \<Rightarrow> int \<Rightarrow> int" where
  "count_after_purge r k windowStart =
     int (length (filter (\<lambda>(m, s). \<not> (0 \<le> s \<and> s \<le> windowStart)) (members r k)))"

text \<open>The transaction that \<open>rateLimit\<close> sends for a connected client, run on the store.\<close>

definition sent_transaction :: "client \<Rightarrow> string \<Rightarrow> RateLimitConfig \<Rightarrow> string \<Rightarrow> world \<Rightarrow> (error + int list) \<times> redis" where
  "sent_transaction c identifier config token w =
     (let key = prefix c @ ''ratelimit:'' @ bucket config @ '':'' @ identifier;
          now = dateNow w div 1000
      in exec [ZREMRANGEBYSCORE key 0 (now - window config),
               ZCARD key,
               ZADD key now (String_of_int now @ '':'' @ token),
               EXPIRE key (window config)] (server w))"

text \<open>
  What the fault schedule holds for the next call on the connection, and the store once
  that call has taken its entry of the schedule.
\<close>

definition next_fault :: "redis \<Rightarrow> error option" where
  "next_fault r = (case faults r of Some e # _ \<Rightarrow> Some e | _ \<Rightarrow> None)"

definition after_call :: "redis \<Rightarrow> redis" where
  "after_call r = r\<lparr>faults := tl (faults r)\<rparr>"

text \<open>Inputs to run the model on.\<close>

definition sample_client :: client where
  "sample_client = (new_client None None)\<lparr>isConnected := True\<rparr>"

definition busy_world :: world where
  "busy_world =
     empty_world\<lparr>server := empty_redis\<lparr>entries :=
       (\<lambda>k. None)(''entrolytics:ratelimit:x:u1'' \<mapsto>
         (RZSet [(''1699999000:0.1'', 1699999000), (''1699999995:0.2'', 1699999995),
                 (''1699999999:0.3'', 1699999999)], Some 5))\<rparr>\<rparr>"

definition failing_world :: world where
  "failing_world = empty_world\<lparr>server := empty_redis\<lparr>faults := [Some (Error ''ECONNRESET'')]\<rparr>\<rparr>"

definition flaky_world :: world where
  "flaky_world = empty_world\<lparr>server := empty_redis\<lparr>faults := [None, Some (Error ''ECONNRESET'')]\<rparr>\<rparr>"

definition stale_world :: world where
  "stale_world = empty_world\<lparr>rateLimitStore := (\<lambda>k. None)(''ratelimit:x:u1'' \<mapsto> [1699999000])\<rparr>"

text \<open>The whole world \<open>d\<close> seconds later: the server clock and the process clock move on.\<close>

definition later :: "int \<Rightarrow> world \<Rightarrow> world" where
  "later d w = w\<lparr>server := elapse d (server w), dateNow := dateNow w + 1000 * d\<rparr>"

text \<open>A caller's \<open>query\<close> that counts its invocations and computes the number 7.\<close>

definition counting_query :: "nat query" where
  "counting_query n = (Inr (Some (JNum 7)), Suc n)"

definition sample_value :: json where
  "sample_value = JObj [(''foo'', JStr ''bar''), (''n'', JArr [JNum 1, JNull, JBool True])]"

text \<open>
  The seconds \<open>set\<close> settles on for a \<open>ttl\<close> argument, and the expiry time the store
  gives a key written with them: none when they are not positive.
\<close>

definition ttl_seconds :: "client \<Rightarrow> TTLOption option \<Rightarrow> world \<Rightarrow> int" where
  "ttl_seconds c t w = (case extractTTL t (dateNow w) of Some n \<Rightarrow> n | None \<Rightarrow> defaultTTL c)"

definition expiry_for :: "int \<Rightarrow> redis \<Rightarrow> int option" where
  "expiry_for seconds r = (if seconds > 0 then Some (clock r + seconds) else None)"

text \<open>
  The integer a key counts, as the counter commands read it: 0 for a key that is absent,
  none for a key that holds no integer. And the expiry time of a key, if it has one.
\<close>

definition counter :: "redis \<Rightarrow> string \<Rightarrow> int option" where
  "counter r k =
     (case lookup r k of
        None \<Rightarrow> Some 0
      | Some (RString s, _) \<Rightarrow>
          (case string_to_int s of
             None \<Rightarrow> None
           | Some v \<Rightarrow> if v < - (2 ^ 63) \<or> 2 ^ 63 \<le> v then None else Some v)
      | Some (RZSet _, _) \<Rightarrow> None)"

definition expiry :: "redis \<Rightarrow> string \<Rightarrow> int option" where
  "expiry r k = (case lookup r k of None \<Rightarrow> None | Some (_, d) \<Rightarrow> d)"

section \<open>The local window tracker\<close>

lemma inMemory_reject:
  assumes "limit config \<le> int (length (filter (\<lambda>ts. windowStart < ts) (stored m key)))"
  shows "inMemoryRateLimit key config now windowStart rnd m =
    (\<lparr>success = False, limit' = limit config, remaining = 0, reset = now + window config\<rparr>,
     m(key \<mapsto> filter (\<lambda>ts. windowStart < ts) (stored m key)))"
  using assms by (simp add: inMemoryRateLimit_def stored_def Let_def)

lemma inMemory_accept:
  assumes "int (length (filter (\<lambda>ts. windowStart < ts) (stored m key))) < limit config"
  shows "inMemoryRateLimit key config now windowStart rnd m =
    (\<lparr>success = True, limit' = limit config,
      remaining = limit config - int (length (filter (\<lambda>ts. windowStart < ts) (stored m key) @ [now])),
      reset = now + window config\<rparr>,
     (if rnd < 1 / 100 then cleanupRateLimitStore windowStart else id)
       (m(key \<mapsto> filter (\<lambda>ts. windowStart < ts) (stored m key) @ [now])))"
  using assms by (simp add: inMemoryRateLimit_def stored_def Let_def)

text \<open>The sweep keeps a sequence whose members are all inside the window.\<close>

lemma cleanup_key:
  assumes "windowStart < now" "\<forall>t \<in> set ts. windowStart < t"
  shows "cleanupRateLimitStore windowStart (m(key \<mapsto> ts @ [now])) key = Some (ts @ [now])"
  using assms by (simp add: cleanupRateLimitStore_def Let_def)

lemma inMemory_accept_key:
  assumes "int (length (filter (\<lambda>ts. windowStart < ts) (stored m key))) < limit config"
    and "windowStart < now"
  shows "snd (inMemoryRateLimit key config now windowStart rnd m) key =
    Some (filter (\<lambda>ts. windowStart < ts) (stored m key) @ [now])"
  using assms by (simp add: inMemory_accept cleanup_key)

text \<open>With no client, \<open>rateLimit\<close> is the local tracker on the key it builds.\<close>

lemma rateLimit_local:
  "rateLimit None identifier config token rnd w =
    (Inr (fst (inMemoryRateLimit (''ratelimit:'' @ bucket config @ '':'' @ identifier) config
                 (dateNow w div 1000) (dateNow w div 1000 - window config) rnd (rateLimitStore w))),
     w\<lparr>rateLimitStore :=
         snd (inMemoryRateLimit (''ratelimit:'' @ bucket config @ '':'' @ identifier) config
                (dateNow w div 1000) (dateNow w div 1000 - window config) rnd (rateLimitStore w))\<rparr>)"
  by (simp add: rateLimit_def Let_def split: prod.splits)

text \<open>
  One call when the window holds \<open>n\<close> requests, all made at \<open>now\<close>: below the limit
  the call is admitted and the window holds one more.
\<close>

lemma step_accept:
  assumes "filter (\<lambda>ts. ws < ts) (stored m key) = replicate n now"
    and "int n < limit config" and "ws < now"
  shows "fst (inMemoryRateLimit key config now ws rnd m) =
      \<lparr>success = True, limit' = limit config, remaining = limit config - int n - 1,
       reset = now + window config\<rparr>"
    and "filter (\<lambda>ts. ws < ts) (stored (snd (inMemoryRateLimit key config now ws rnd m)) key) =
      replicate (Suc n) now"
proof -
  have lt: "int (length (filter (\<lambda>ts. ws < ts) (stored m key))) < limit config"
    using assms by simp
  show "fst (inMemoryRateLimit key config now ws rnd m) =
      \<lparr>success = True, limit' = limit config, remaining = limit config - int n - 1,
       reset = now + window config\<rparr>"
    using assms by (simp add: inMemory_accept [OF lt])
  have "snd (inMemoryRateLimit key config now ws rnd m) key = Some (replicate n now @ [now])"
    using inMemory_accept_key [OF lt assms(3)] assms(1) by simp
  then show "filter (\<lambda>ts. ws < ts) (stored (snd (inMemoryRateLimit key config now ws rnd m)) key) =
      replicate (Suc n) now"
    using assms(3) by (simp add: stored_def replicate_append_same)
qed

lemma step_reject:
  assumes "filter (\<lambda>ts. ws < ts) (stored m key) = replicate n now"
    and "limit config \<le> int n"
  shows "fst (inMemoryRateLimit key config now ws rnd m) =
      \<lparr>success = False, limit' = limit config, remaining = 0, reset = now + window config\<rparr>"
proof -
  have ge: "limit config \<le> int (length (filter (\<lambda>ts. ws < ts) (stored m key)))"
    using assms by simp
  show ?thesis by (simp add: inMemory_reject [OF ge])
qed

lemma four_calls:
  assumes "filter (\<lambda>ts. dateNow w div 1000 - 10 < ts) (stored (rateLimitStore w) ''ratelimit:x:u1'') = []"
  shows "fst (rateLimit_calls None ''u1'' \<lparr>bucket = ''x'', limit = 3, window = 10\<rparr> [d1, d2, d3, d4] w) =
    [Inr \<lparr>success = True, limit' = 3, remaining = 2, reset = dateNow w div 1000 + 10\<rparr>,
     Inr \<lparr>success = True, limit' = 3, remaining = 1, reset = dateNow w div 1000 + 10\<rparr>,
     Inr \<lparr>success = True, limit' = 3, remaining = 0, reset = dateNow w div 1000 + 10\<rparr>,
     Inr \<lparr>success = False, limit' = 3, remaining = 0, reset = dateNow w div 1000 + 10\<rparr>]"
proof -
  define cfg where "cfg = \<lparr>bucket = ''x'', limit = 3, window = 10\<rparr>"
  define now where "now = dateNow w div 1000"
  define m0 where "m0 = rateLimitStore w"
  define m1 where "m1 = snd (inMemoryRateLimit ''ratelimit:x:u1'' cfg now (now - 10) (snd d1) m0)"
  define m2 where "m2 = snd (inMemoryRateLimit ''ratelimit:x:u1'' cfg now (now - 10) (snd d2) m1)"
  define m3 where "m3 = snd (inMemoryRateLimit ''ratelimit:x:u1'' cfg now (now - 10) (snd d3) m2)"
  have c [simp]: "limit cfg = 3" "window cfg = 10" "bucket cfg = ''x''"
    by (simp_all add: cfg_def)
  have p0: "filter (\<lambda>ts. now - 10 < ts) (stored m0 ''ratelimit:x:u1'') = replicate 0 now"
    using assms by (simp add: now_def m0_def)
  have r1: "fst (inMemoryRateLimit ''ratelimit:x:u1'' cfg now (now - 10) (snd d1) m0) =
      \<lparr>success = True, limit' = 3, remaining = 2, reset = now + 10\<rparr>"
    using step_accept(1) [OF p0, of cfg "snd d1"] by simp
  have p1: "filter (\<lambda>ts. now - 10 < ts) (stored m1 ''ratelimit:x:u1'') = replicate 1 now"
    unfolding m1_def using step_accept(2) [OF p0, of cfg "snd d1"] by simp
  have r2: "fst (inMemoryRateLimit ''ratelimit:x:u1'' cfg now (now - 10) (snd d2) m1) =
      \<lparr>success = True, limit' = 3, remaining = 1, reset = now + 10\<rparr>"
    using step_accept(1) [OF p1, of cfg "snd d2"] by simp
  have p2: "filter (\<lambda>ts. now - 10 < ts) (stored m2 ''ratelimit:x:u1'') = replicate 2 now"
    unfolding m2_def using step_accept(2) [OF p1, of cfg "snd d2"] by (simp add: numeral_2_eq_2)
  have r3: "fst (inMemoryRateLimit ''ratelimit:x:u1'' cfg now (now - 10) (snd d3) m2) =
      \<lparr>success = True, limit' = 3, remaining = 0, reset = now + 10\<rparr>"
    using step_accept(1) [OF p2, of cfg "snd d3"] by simp
  have p3: "filter (\<lambda>ts. now - 10 < ts) (stored m3 ''ratelimit:x:u1'') = replicate 3 now"
    unfolding m3_def using step_accept(2) [OF p2, of cfg "snd d3"]
    by (simp add: numeral_3_eq_3 numeral_2_eq_2)
  have r4: "fst (inMemoryRateLimit ''ratelimit:x:u1'' cfg now (now - 10) (snd d4) m3) =
      \<lparr>success = False, limit' = 3, remaining = 0, reset = now + 10\<rparr>"
    using step_reject [OF p3, of cfg "snd d4"] by simp
  show ?thesis
    unfolding cfg_def [symmetric] now_def [symmetric]
    using r1 r2 r3 r4
    by (simp add: rateLimit_local now_def [symmetric] m0_def [symmetric] m1_def [symmetric]
        m2_def [symmetric] m3_def [symmetric])
qed

text \<open>
  Claim C3. The local tracker drops the stored timestamps that are not later than
  \<open>windowStart\<close>. When the number left is at least \<open>limit\<close> it rejects with
  \<open>remaining = 0\<close> and stores the filtered sequence back, with nothing appended. Otherwise
  it appends \<open>now\<close>, stores the sequence and accepts with \<open>remaining\<close> the limit less
  the new length; the key then holds the filtered sequence with \<open>now\<close> at its end, also
  after the occasional sweep when \<open>windowStart\<close> is before \<open>now\<close>. \<open>reset\<close> is
  \<open>now + window\<close> in both cases. For the policy with bucket \<open>x\<close>, limit 3 and window 10
  and the identifier \<open>u1\<close>, four calls in immediate succession on a tracker with no
  request of \<open>u1\<close> inside the window succeed three times and then fail with
  \<open>remaining = 0\<close>, whatever the random draws.
\<close>

theorem local_tracker_checkLimit:
  "(let kept = filter (\<lambda>ts. windowStart < ts) (stored m key);
        call = inMemoryRateLimit key config now windowStart rnd m
    in (limit config \<le> int (length kept) \<longrightarrow>
          call = (\<lparr>success = False, limit' = limit config, remaining = 0,
                   reset = now + window config\<rparr>,
                  m(key \<mapsto> kept))) \<and>
       (int (length kept) < limit config \<longrightarrow>
          fst call = \<lparr>success = True, limit' = limit config,
                       remaining = limit config - int (length (kept @ [now])),
                       reset = now + window config\<rparr> \<and>
          snd call = (if rnd < 1 / 100 then cleanupRateLimitStore windowStart else id)
                       (m(key \<mapsto> kept @ [now])) \<and>
          (windowStart < now \<longrightarrow> snd call key = Some (kept @ [now])))) \<and>
   (filter (\<lambda>ts. dateNow w div 1000 - 10 < ts) (stored (rateLimitStore w) ''ratelimit:x:u1'') = [] \<longrightarrow>
      fst (rateLimit_calls None ''u1'' \<lparr>bucket = ''x'', limit = 3, window = 10\<rparr> [d1, d2, d3, d4] w) =
        [Inr \<lparr>success = True, limit' = 3, remaining = 2, reset = dateNow w div 1000 + 10\<rparr>,
         Inr \<lparr>success = True, limit' = 3, remaining = 1, reset = dateNow w div 1000 + 10\<rparr>,
         Inr \<lparr>success = True, limit' = 3, remaining = 0, reset = dateNow w div 1000 + 10\<rparr>,
         Inr \<lparr>success = False, limit' = 3, remaining = 0, reset = dateNow w div 1000 + 10\<rparr>])"
  unfolding Let_def
  apply (intro conjI impI)
      apply (simp add: inMemory_reject)
     apply (simp add: inMemory_accept)
    apply (simp add: inMemory_accept)
   apply (erule (1) inMemory_accept_key)
  apply (erule four_calls)
  done

theorem local_tracker_checkLimit_witness:
  "fst (inMemoryRateLimit ''k'' \<lparr>bucket = ''b'', limit = 3, window = 10\<rparr> 100 90 (1 / 2)
          ((\<lambda>k. None)(''k'' \<mapsto> [80, 95]))) =
     \<lparr>success = True, limit' = 3, remaining = 1, reset = 110\<rparr> \<and>
   snd (inMemoryRateLimit ''k'' \<lparr>bucket = ''b'', limit = 3, window = 10\<rparr> 100 90 (1 / 2)
          ((\<lambda>k. None)(''k'' \<mapsto> [80, 95]))) ''k'' = Some [95, 100] \<and>
   inMemoryRateLimit ''k'' \<lparr>bucket = ''b'', limit = 1, window = 10\<rparr> 100 90 (1 / 2)
          ((\<lambda>k. None)(''k'' \<mapsto> [80, 95])) =
     (\<lparr>success = False, limit' = 1, remaining = 0, reset = 110\<rparr>, (\<lambda>k. None)(''k'' \<mapsto> [95])) \<and>
   fst (rateLimit_calls None ''u1'' \<lparr>bucket = ''x'', limit = 3, window = 10\<rparr>
          [(''0.1'', 1 / 2), (''0.2'', 0), (''0.3'', 1 / 200), (''0.4'', 1)] empty_world) =
     [Inr \<lparr>success = True, limit' = 3, remaining = 2, reset = 1700000010\<rparr>,
      Inr \<lparr>success = True, limit' = 3, remaining = 1, reset = 1700000010\<rparr>,
      Inr \<lparr>success = True, limit' = 3, remaining = 0, reset = 1700000010\<rparr>,
      Inr \<lparr>success = False, limit' = 3, remaining = 0, reset = 1700000010\<rparr>]"
  using
    local_tracker_checkLimit [of 90 "(\<lambda>k. None)(''k'' \<mapsto> [80, 95])" "''k''"
      "\<lparr>bucket = ''b'', limit = 3, window = 10\<rparr>" 100 "1 / 2" empty_world
      "(''0.1'', 1 / 2)" "(''0.2'', 0)" "(''0.3'', 1 / 200)" "(''0.4'', 1)"]
    local_tracker_checkLimit [of 90 "(\<lambda>k. None)(''k'' \<mapsto> [80, 95])" "''k''"
      "\<lparr>bucket = ''b'', limit = 1, window = 10\<rparr>" 100 "1 / 2" empty_world]
  by (simp add: stored_def empty_world_def Let_def)

section \<open>The store and the connection\<close>

lemma call_eq:
  "call f r = (case next_fault r of Some e \<Rightarrow> (Inl e, after_call r) | None \<Rightarrow> f (after_call r))"
proof (cases "faults r")
  case Nil
  then have "after_call r = r" by (cases r) (simp add: after_call_def)
  with Nil show ?thesis by (simp add: call_def next_fault_def)
next
  case (Cons a fs)
  then show ?thesis by (cases a) (simp_all add: call_def next_fault_def after_call_def)
qed

lemma lookup_after_call [simp]: "lookup (after_call r) k = lookup r k"
  by (simp add: lookup_def after_call_def split: option.splits prod.splits)

lemma lookup_put_same:
  "lookup (put k (v, d) r) k =
     (case d of None \<Rightarrow> Some (v, None) | Some t \<Rightarrow> if clock r < t then Some (v, Some t) else None)"
  by (simp add: lookup_def put_def split: option.splits)

lemma lookup_put_other: "k' \<noteq> k \<Longrightarrow> lookup (put k e r) k' = lookup r k'"
  by (simp add: lookup_def put_def split: option.splits prod.splits)

lemma lookup_drop_same [simp]: "lookup (drop_key k r) k = None"
  by (simp add: lookup_def drop_key_def)

lemma lookup_live: "lookup r k = Some (v, d) \<Longrightarrow> lookup (put k (v', d) r) k = Some (v', d)"
  by (auto simp: lookup_def put_def split: option.splits prod.splits if_splits)

lemma purge_then_count:
  assumes "fst (ZREMRANGEBYSCORE k 0 ws r) = Inr x"
  shows "fst (ZCARD k (snd (ZREMRANGEBYSCORE k 0 ws r))) = Inr (count_after_purge r k ws)"
proof (cases "lookup r k")
  case None
  then show ?thesis
    by (simp add: ZREMRANGEBYSCORE_def ZCARD_def count_after_purge_def members_def)
next
  case (Some e)
  obtain v d where e: "e = (v, d)" by (cases e)
  show ?thesis
  proof (cases v)
    case (RString s)
    with Some e assms show ?thesis by (simp add: ZREMRANGEBYSCORE_def)
  next
    case (RZSet zs)
    show ?thesis
    proof (cases "filter (\<lambda>(m, s). \<not> (0 \<le> s \<and> s \<le> ws)) zs = []")
      case True
      with Some e RZSet show ?thesis
        by (simp add: ZREMRANGEBYSCORE_def ZCARD_def count_after_purge_def members_def Let_def)
    next
      case False
      with Some e RZSet show ?thesis
        by (simp add: ZREMRANGEBYSCORE_def ZCARD_def count_after_purge_def members_def Let_def lookup_live)
    qed
  qed
qed

lemma run_queued_four:
  "fst (run_queued [a, b, c, d] r) =
     [fst (a r), fst (b (snd (a r))), fst (c (snd (b (snd (a r))))),
      fst (d (snd (c (snd (b (snd (a r)))))))]"
  by (simp split: prod.splits)

lemma replies_four:
  assumes "replies_or_error [x1, x2, x3, x4] = Inr results"
  shows "\<exists>y1 y2 y3 y4. x1 = Inr y1 \<and> x2 = Inr y2 \<and> x3 = Inr y3 \<and> x4 = Inr y4 \<and> results = [y1, y2, y3, y4]"
  using assms by (cases x1; cases x2; cases x3; cases x4) auto

lemma members_after_call [simp]: "members (after_call r) k = members r k"
  by (simp add: members_def)

lemma exec_count:
  assumes "fst (exec [ZREMRANGEBYSCORE k 0 ws, ZCARD k, ZADD k now mem, EXPIRE k win] r) = Inr results"
  shows "1 < length results \<and> results ! 1 = count_after_purge r k ws"
proof -
  let ?q = "[ZREMRANGEBYSCORE k 0 ws, ZCARD k, ZADD k now mem, EXPIRE k win]"
  from assms have nf: "next_fault r = None"
    by (cases "next_fault r") (simp_all add: exec_def call_eq)
  with assms have "replies_or_error (fst (run_queued ?q (after_call r))) = Inr results"
    by (simp add: exec_def call_eq split: prod.splits)
  then obtain y1 y2 y3 y4 where
    y: "fst (ZREMRANGEBYSCORE k 0 ws (after_call r)) = Inr y1"
       "fst (ZCARD k (snd (ZREMRANGEBYSCORE k 0 ws (after_call r)))) = Inr y2"
       "results = [y1, y2, y3, y4]"
    unfolding run_queued_four by (drule_tac replies_four) auto
  from purge_then_count [OF y(1)] y(2) have "y2 = count_after_purge r k ws"
    by (simp add: count_after_purge_def)
  with y(3) show ?thesis by simp
qed

lemmas store_defs =
  call_def exec_def lookup_def put_def drop_key_def GET_def SET_def SETEX_def DEL_def INCRBY_def
  EXPIRE_def TTL_def EXISTS_def ZADD_def ZREMRANGEBYSCORE_def ZCARD_def ZRANGE_def

lemmas sample_defs =
  sample_client_def new_client_def CACHE_PREFIX_def empty_world_def empty_redis_def busy_world_def
  failing_world_def

section \<open>The distributed window limiter\<close>

lemma count_after_purge_nonneg:
  assumes "\<forall>(m, s) \<in> set (members r k). 0 \<le> s"
  shows "count_after_purge r k ws = int (length (filter (\<lambda>(m, s). ws < s) (members r k)))"
proof -
  have "filter (\<lambda>(m, s). \<not> (0 \<le> s \<and> s \<le> ws)) (members r k) = filter (\<lambda>(m, s). ws < s) (members r k)"
    using assms by (intro filter_cong) auto
  then show ?thesis by (simp add: count_after_purge_def)
qed

lemma rateLimit_connected:
  assumes "isConnected c"
  shows "rateLimit (Some c) identifier config token rnd w =
    (case sent_transaction c identifier config token w of
       (Inl err, s) \<Rightarrow>
         (case inMemoryRateLimit (''ratelimit:'' @ bucket config @ '':'' @ identifier) config
                 (dateNow w div 1000) (dateNow w div 1000 - window config) rnd (rateLimitStore w) of
            (res, m) \<Rightarrow>
              (Inr res,
               w\<lparr>server := s,
                 logged := logged w @ [Line ''Redis rate limiting error, falling back to in-memory:'' (Some err)],
                 rateLimitStore := m\<rparr>))
     | (Inr results, s) \<Rightarrow>
         (let count = (if 1 < length results then results ! 1 else 0)
          in (Inr (if count \<ge> limit config
                   then \<lparr>success = False, limit' = limit config, remaining = 0,
                         reset = dateNow w div 1000 + window config\<rparr>
                   else \<lparr>success = True, limit' = limit config,
                         remaining = max 0 (limit config - count - 1),
                         reset = dateNow w div 1000 + window config\<rparr>),
              w\<lparr>server := s\<rparr>)))"
  using assms
  by (simp add: rateLimit_def sent_transaction_def Let_def debug_log_def split: prod.splits sum.splits)

text \<open>
  Claim C1. With the client connected and the transaction answered, \<open>rateLimit\<close>
  rejects (\<open>success = False\<close>, \<open>remaining = 0\<close>) exactly when \<open>count \<ge> limit\<close>, and
  otherwise accepts with \<open>remaining = max 0 (limit - count - 1)\<close>; \<open>reset = now + window\<close>
  in both cases. \<open>count\<close> is the number of members the sorted set of the key holds once
  the scores from 0 to \<open>now - window\<close> are removed and before the new member is added;
  when no score is negative these are the members with a score later than
  \<open>now - window\<close>. The call changes the store only, by the transaction.
\<close>

theorem distributed_checkLimit:
  assumes "isConnected c"
    and "fst (sent_transaction c identifier config token w) = Inr results"
  shows "(let now = dateNow w div 1000;
              key = prefix c @ ''ratelimit:'' @ bucket config @ '':'' @ identifier;
              count = count_after_purge (server w) key (now - window config)
          in fst (rateLimit (Some c) identifier config token rnd w) =
               Inr (if count \<ge> limit config
                    then \<lparr>success = False, limit' = limit config, remaining = 0,
                          reset = now + window config\<rparr>
                    else \<lparr>success = True, limit' = limit config,
                          remaining = max 0 (limit config - count - 1),
                          reset = now + window config\<rparr>) \<and>
             snd (rateLimit (Some c) identifier config token rnd w) =
               w\<lparr>server := snd (sent_transaction c identifier config token w)\<rparr> \<and>
             ((\<forall>(m, s) \<in> set (members (server w) key). 0 \<le> s) \<longrightarrow>
                count = int (length (filter (\<lambda>(m, s). now - window config < s) (members (server w) key)))))"
proof -
  let ?key = "prefix c @ ''ratelimit:'' @ bucket config @ '':'' @ identifier"
  let ?now = "dateNow w div 1000"
  obtain s where st: "sent_transaction c identifier config token w = (Inr results, s)"
    using assms(2) by (cases "sent_transaction c identifier config token w") simp
  from assms(2) have cnt: "1 < length results \<and> results ! 1 = count_after_purge (server w) ?key (?now - window config)"
    unfolding sent_transaction_def Let_def by (rule exec_count)
  show ?thesis
    unfolding Let_def
    using cnt by (simp add: rateLimit_connected [OF assms(1)] st count_after_purge_nonneg Let_def)
qed

theorem distributed_checkLimit_witness:
  "isConnected sample_client \<and>
   fst (sent_transaction sample_client ''u1'' \<lparr>bucket = ''x'', limit = 3, window = 10\<rparr> ''0.5'' busy_world) =
     Inr [1, 2, 1, 1] \<and>
   fst (rateLimit (Some sample_client) ''u1'' \<lparr>bucket = ''x'', limit = 3, window = 10\<rparr> ''0.5'' (1 / 2) busy_world) =
     Inr \<lparr>success = True, limit' = 3, remaining = 0, reset = 1700000010\<rparr> \<and>
   fst (rateLimit (Some sample_client) ''u1'' \<lparr>bucket = ''x'', limit = 2, window = 10\<rparr> ''0.5'' (1 / 2) busy_world) =
     Inr \<lparr>success = False, limit' = 2, remaining = 0, reset = 1700000010\<rparr> \<and>
   list_all (\<lambda>(m, s). 0 \<le> s) (members (server busy_world) ''entrolytics:ratelimit:x:u1'') \<and>
   count_after_purge (server busy_world) ''entrolytics:ratelimit:x:u1'' 1699999990 =
     int (length (filter (\<lambda>(m, s). 1699999990 < s)
       (members (server busy_world) ''entrolytics:ratelimit:x:u1'')))"
proof -
  have h1: "isConnected sample_client"
    by (simp add: sample_defs)
  have h2: "fst (sent_transaction sample_client ''u1'' \<lparr>bucket = ''x'', limit = 3, window = 10\<rparr> ''0.5'' busy_world) = Inr [1, 2, 1, 1]"
    by (simp add: sent_transaction_def store_defs sample_defs Let_def)
  have h3: "fst (sent_transaction sample_client ''u1'' \<lparr>bucket = ''x'', limit = 2, window = 10\<rparr> ''0.5'' busy_world) = Inr [1, 2, 1, 1]"
    by (simp add: sent_transaction_def store_defs sample_defs Let_def)
  have m: "members (server busy_world) ''entrolytics:ratelimit:x:u1'' =
      [(''1699999000:0.1'', 1699999000), (''1699999995:0.2'', 1699999995), (''1699999999:0.3'', 1699999999)]"
    by (simp add: members_def lookup_def sample_defs)
  have p: "prefix sample_client = ''entrolytics:''" "dateNow busy_world div 1000 = 1700000000"
    by (simp_all add: sample_defs)
  show ?thesis
    using h1 h2 distributed_checkLimit [OF h1 h2, of "1 / 2"] distributed_checkLimit [OF h1 h3, of "1 / 2"]
    by (simp add: Let_def m p)
qed

text \<open>
  Claim C2. When the transaction raises, \<open>rateLimit\<close> does not raise: it resolves to the
  result the local tracker computes for this request on the in-process map, logs the
  error, and the result is well formed: it carries the limit of the config, \<open>reset = now +
  window\<close>, a \<open>remaining\<close> that is not negative, and \<open>remaining = 0\<close> when it rejects.
\<close>

theorem distributed_fallback:
  assumes "isConnected c"
    and "sent_transaction c identifier config token w = (Inl err, s)"
  shows "(let now = dateNow w div 1000;
              key = ''ratelimit:'' @ bucket config @ '':'' @ identifier;
              tracked = inMemoryRateLimit key config now (now - window config) rnd (rateLimitStore w)
          in rateLimit (Some c) identifier config token rnd w =
               (Inr (fst tracked),
                w\<lparr>server := s,
                  logged := logged w @
                    [Line ''Redis rate limiting error, falling back to in-memory:'' (Some err)],
                  rateLimitStore := snd tracked\<rparr>) \<and>
             limit' (fst tracked) = limit config \<and>
             reset (fst tracked) = now + window config \<and>
             0 \<le> remaining (fst tracked) \<and>
             (success (fst tracked) \<or> remaining (fst tracked) = 0))"
  unfolding Let_def
  by (simp add: rateLimit_connected [OF assms(1)] assms(2) inMemoryRateLimit_def Let_def split: prod.splits)

theorem distributed_fallback_witness:
  "isConnected sample_client \<and>
   sent_transaction sample_client ''u1'' \<lparr>bucket = ''x'', limit = 3, window = 10\<rparr> ''0.5'' failing_world =
     (Inl (Error ''ECONNRESET''), empty_redis) \<and>
   fst (rateLimit (Some sample_client) ''u1'' \<lparr>bucket = ''x'', limit = 3, window = 10\<rparr> ''0.5'' (1 / 2) failing_world) =
     Inr \<lparr>success = True, limit' = 3, remaining = 2, reset = 1700000010\<rparr> \<and>
   logged (snd (rateLimit (Some sample_client) ''u1'' \<lparr>bucket = ''x'', limit = 3, window = 10\<rparr> ''0.5'' (1 / 2) failing_world)) =
     [Line ''Redis rate limiting error, falling back to in-memory:'' (Some (Error ''ECONNRESET''))]"
proof -
  have h1: "isConnected sample_client"
    by (simp add: sample_defs)
  have h2: "sent_transaction sample_client ''u1'' \<lparr>bucket = ''x'', limit = 3, window = 10\<rparr> ''0.5'' failing_world =
     (Inl (Error ''ECONNRESET''), empty_redis)"
    by (simp add: sent_transaction_def store_defs sample_defs Let_def)
  have h3: "fst (inMemoryRateLimit ''ratelimit:x:u1'' \<lparr>bucket = ''x'', limit = 3, window = 10\<rparr> 1700000000 1699999990 (1 / 2) (\<lambda>k. None)) =
     \<lparr>success = True, limit' = 3, remaining = 2, reset = 1700000010\<rparr>"
    by (simp add: inMemoryRateLimit_def)
  show ?thesis
    using h1 h2 h3 distributed_fallback [OF h1 h2, of "1 / 2"]
    by (simp add: Let_def sample_defs)
qed

section \<open>The in-process map outside the tracker\<close>

text \<open>
  Claim C10. With no client, \<open>rateLimitSimple\<close> does not fail open: it checks a sliding
  window on the shared in-process map under the key \<open>simple:\<close> followed by the
  identifier. It resolves to \<open>True\<close> (limited) exactly when at least \<open>limit\<close> of the
  stored timestamps are later than \<open>now - windowSeconds\<close>, and then leaves the whole state
  as it is; otherwise it stores the timestamps inside the window with \<open>now\<close> appended and
  resolves to \<open>False\<close>. Nothing else changes: no other key of the map is swept, and the
  call takes no random draw.
\<close>

theorem rateLimitSimple_local:
  "(let key = ''simple:'' @ identifier;
        now = dateNow w div 1000;
        inside = filter (\<lambda>ts. now - windowSeconds < ts) (stored (rateLimitStore w) key)
    in fst (rateLimitSimple None identifier lmt windowSeconds w) = Inr (lmt \<le> int (length inside)) \<and>
       snd (rateLimitSimple None identifier lmt windowSeconds w) =
         (None,
          if lmt \<le> int (length inside) then w
          else w\<lparr>rateLimitStore := (rateLimitStore w)(key \<mapsto> inside @ [now])\<rparr>))"
  by (simp add: rateLimitSimple_def stored_def Let_def)

theorem rateLimitSimple_local_witness:
  "fst (rateLimitSimple None ''u1'' 1 60 empty_world) = Inr False \<and>
   rateLimitStore (snd (snd (rateLimitSimple None ''u1'' 1 60 empty_world))) ''simple:u1'' =
     Some [1700000000] \<and>
   fst (rateLimitSimple None ''u1'' 1 60 (snd (snd (rateLimitSimple None ''u1'' 1 60 empty_world)))) =
     Inr True \<and>
   snd (snd (rateLimitSimple None ''u1'' 1 60 (snd (snd (rateLimitSimple None ''u1'' 1 60 empty_world))))) =
     snd (snd (rateLimitSimple None ''u1'' 1 60 empty_world))"
  using rateLimitSimple_local [of "''u1''" empty_world 60 1]
    rateLimitSimple_local [of "''u1''" "snd (snd (rateLimitSimple None ''u1'' 1 60 empty_world))" 60 1]
  by (simp add: Let_def stored_def empty_world_def)

text \<open>
  Claim C7, as amended. After a call of the local tracker with \<open>windowStart\<close> before
  \<open>now\<close>, the sequence stored for the key holds only timestamps later than
  \<open>windowStart\<close>; so it does after \<open>rateLimit\<close> with no client and a positive window,
  where \<open>windowStart = now - window\<close>. \<open>getRemaining\<close> with no client writes nothing:
  it leaves the stored sequence as it was, and only the count it returns,
  \<open>max 0 (limit - n)\<close>, leaves out the timestamps not later than \<open>now - window\<close>.
\<close>

theorem window_invariant:
  "(windowStart < now \<longrightarrow>
      (\<forall>t \<in> set (stored (snd (inMemoryRateLimit key config now windowStart rnd m)) key). windowStart < t)) \<and>
   (0 < window config \<longrightarrow>
      (\<forall>t \<in> set (stored (rateLimitStore (snd (rateLimit None identifier config token rnd w)))
                      (''ratelimit:'' @ bucket config @ '':'' @ identifier)).
         dateNow w div 1000 - window config < t)) \<and>
   getRemaining None identifier config w =
     (Inr (Some (max 0 (limit config -
        int (length (filter (\<lambda>ts. dateNow w div 1000 - window config < ts)
               (stored (rateLimitStore w) (''ratelimit:'' @ bucket config @ '':'' @ identifier))))))),
      None, w)"
proof -
  have inv: "\<forall>t \<in> set (stored (snd (inMemoryRateLimit k cfg n ws r mm)) k). ws < t" if "ws < n" for k cfg n ws r mm
  proof (cases "limit cfg \<le> int (length (filter (\<lambda>ts. ws < ts) (stored mm k)))")
    case True
    then show ?thesis by (simp add: inMemory_reject stored_def)
  next
    case False
    then have "int (length (filter (\<lambda>ts. ws < ts) (stored mm k))) < limit cfg" by simp
    from inMemory_accept_key [OF this that] that show ?thesis by (simp add: stored_def)
  qed
  have a: "windowStart < now \<longrightarrow>
      (\<forall>t \<in> set (stored (snd (inMemoryRateLimit key config now windowStart rnd m)) key). windowStart < t)"
    using inv by blast
  have b: "0 < window config \<longrightarrow>
      (\<forall>t \<in> set (stored (rateLimitStore (snd (rateLimit None identifier config token rnd w)))
                      (''ratelimit:'' @ bucket config @ '':'' @ identifier)).
         dateNow w div 1000 - window config < t)"
  proof
    assume "0 < window config"
    then have "dateNow w div 1000 - window config < dateNow w div 1000" by simp
    from inv [OF this] show "\<forall>t \<in> set (stored (rateLimitStore (snd (rateLimit None identifier config token rnd w)))
                      (''ratelimit:'' @ bucket config @ '':'' @ identifier)).
         dateNow w div 1000 - window config < t"
      unfolding rateLimit_local by simp
  qed
  have c: "getRemaining None identifier config w =
     (Inr (Some (max 0 (limit config -
        int (length (filter (\<lambda>ts. dateNow w div 1000 - window config < ts)
               (stored (rateLimitStore w) (''ratelimit:'' @ bucket config @ '':'' @ identifier))))))),
      None, w)"
    by (simp add: getRemaining_def stored_def Let_def)
  from a b c show ?thesis by blast
qed

theorem window_invariant_witness:
  "(90 :: int) < 100 \<and>
   list_all (\<lambda>t. 90 < t)
     (stored (snd (inMemoryRateLimit ''k'' \<lparr>bucket = ''x'', limit = 3, window = 10\<rparr> 100 90 (1 / 200)
        ((\<lambda>k. None)(''k'' \<mapsto> [80, 95])))) ''k'') \<and>
   list_all (\<lambda>t. 1699999990 < t)
     (stored (rateLimitStore (snd (rateLimit None ''u1'' \<lparr>bucket = ''x'', limit = 3, window = 10\<rparr> ''0'' (1 / 200)
        stale_world))) ''ratelimit:x:u1'') \<and>
   getRemaining None ''u1'' \<lparr>bucket = ''x'', limit = 3, window = 10\<rparr> stale_world =
     (Inr (Some 3), None, stale_world)"
proof -
  have s: "stored (rateLimitStore stale_world) ''ratelimit:x:u1'' = [1699999000]"
    by (simp add: stale_world_def empty_world_def stored_def)
  have n: "dateNow stale_world div 1000 = 1700000000"
    by (simp add: stale_world_def empty_world_def)
  from window_invariant [of 90 100 "''k''" "\<lparr>bucket = ''x'', limit = 3, window = 10\<rparr>" "1 / 200"
      "(\<lambda>k. None)(''k'' \<mapsto> [80, 95])" "''u1''" "''0''" stale_world]
  show ?thesis
    by (simp add: list_all_iff s n)
qed

text \<open>
  The claim as stated fails for \<open>getRemaining\<close>: a timestamp stored 1000 seconds ago is
  still in the map after the accessor has read the key with a window of 10 seconds.
\<close>

theorem window_invariant_counterexample:
  "getRemaining None ''u1'' \<lparr>bucket = ''x'', limit = 3, window = 10\<rparr> stale_world = (Inr (Some 3), None, stale_world) \<and>
   stored (rateLimitStore stale_world) ''ratelimit:x:u1'' = [1699999000] \<and>
   \<not> (\<forall>t \<in> set (stored (rateLimitStore (snd (snd (getRemaining None ''u1'' \<lparr>bucket = ''x'', limit = 3, window = 10\<rparr> stale_world)))) ''ratelimit:x:u1'').
         dateNow stale_world div 1000 - 10 < t)"
  by (simp add: getRemaining_def stale_world_def empty_world_def stored_def Let_def)

section \<open>The guarded store calls\<close>

lemma call_healthy: "faults r = [] \<Longrightarrow> call f r = f r"
  by (simp add: call_def)

lemma connect_eq:
  "connect c w =
     (if isConnected c then (Inr (), c, w)
      else (case next_fault (server w) of
              Some e \<Rightarrow> (Inl e, c, w\<lparr>server := after_call (server w)\<rparr>)
            | None \<Rightarrow>
                (Inr (), c\<lparr>isConnected := True\<rparr>,
                 w\<lparr>server := after_call (server w),
                   logged := logged w @ [Line ''Redis connected'' None]\<rparr>)))"
  by (simp add: connect_def call_eq split: option.splits)

lemma connect_healthy:
  assumes "faults (server w) = []"
  shows "\<exists>c1 w1. connect c w = (Inr (), c1, w1) \<and> prefix c1 = prefix c \<and> defaultTTL c1 = defaultTTL c
           \<and> hits c1 = hits c \<and> misses c1 = misses c \<and> isConnected c1
           \<and> server w1 = server w \<and> dateNow w1 = dateNow w \<and> rateLimitStore w1 = rateLimitStore w"
  using assms by (simp add: connect_def call_def)

lemma connect_prefix:
  "connect c w = (res, c1, w1) \<Longrightarrow>
     prefix c1 = prefix c \<and> defaultTTL c1 = defaultTTL c \<and> hits c1 = hits c \<and> misses c1 = misses c"
  by (auto simp: connect_eq split: if_splits option.splits)

lemma awaited_connect_fails:
  "connect c w = (Inl err, c1, w1) \<Longrightarrow> awaited msg dflt k cmd c w = (Inr dflt, c1, debug_log msg err w1)"
  by (simp add: awaited_def)

lemma returned_connect_fails:
  "connect c w = (Inl err, c1, w1) \<Longrightarrow> returned msg dflt k cmd c w = (Inr dflt, c1, debug_log msg err w1)"
  by (simp add: returned_def)

lemma awaited_command_fails:
  "connect c w = (Inr u, c1, w1) \<Longrightarrow> cmd c1 w1 (server w1) = (Inl err, s) \<Longrightarrow>
     awaited msg dflt k cmd c w = (Inr dflt, c1, debug_log msg err (w1\<lparr>server := s\<rparr>))"
  by (simp add: awaited_def)

text \<open>
  Claim C5, as amended. When the connection cannot be established, every key-value and
  sorted-set method catches the error, logs it and resolves to its default: \<open>null\<close> for
  \<open>get\<close> and \<open>set\<close>; 0 for \<open>del\<close>, \<open>incr\<close>, \<open>incrBy\<close>, \<open>decr\<close>, \<open>decrBy\<close>, \<open>zAdd\<close>,
  \<open>zRemRangeByScore\<close> and \<open>zCard\<close>; \<open>false\<close> for \<open>expire\<close> and \<open>exists\<close>; \<open>-1\<close> for \<open>ttl\<close>;
  the empty list for \<open>zRange\<close>. When the store command itself fails, \<open>get\<close>, \<open>expire\<close>
  and \<open>exists\<close>, which await it, do the same.
\<close>

theorem store_failure_defaults:
  "(connect c w = (Inl err, c1, w1) \<longrightarrow>
      get rt c key w = (Inr JNull, c1, debug_log ''Redis get error:'' err w1) \<and>
      set_value rt c key v t w = (Inr None, c1, debug_log ''Redis set error:'' err w1) \<and>
      del c key w = (Inr 0, c1, debug_log ''Redis del error:'' err w1) \<and>
      incr c key w = (Inr 0, c1, debug_log ''Redis incr error:'' err w1) \<and>
      incrBy c key n w = (Inr 0, c1, debug_log ''Redis incrBy error:'' err w1) \<and>
      decr c key w = (Inr 0, c1, debug_log ''Redis decr error:'' err w1) \<and>
      decrBy c key n w = (Inr 0, c1, debug_log ''Redis decrBy error:'' err w1) \<and>
      expire c key n w = (Inr False, c1, debug_log ''Redis expire error:'' err w1) \<and>
      ttl c key w = (Inr (- 1), c1, debug_log ''Redis ttl error:'' err w1) \<and>
      exists c key w = (Inr False, c1, debug_log ''Redis exists error:'' err w1) \<and>
      zAdd c key n mem w = (Inr 0, c1, debug_log ''Redis zAdd error:'' err w1) \<and>
      zRemRangeByScore c key lo hi w = (Inr 0, c1, debug_log ''Redis zRemRangeByScore error:'' err w1) \<and>
      zCard c key w = (Inr 0, c1, debug_log ''Redis zCard error:'' err w1) \<and>
      zRange c key lo hi w = (Inr [], c1, debug_log ''Redis zRange error:'' err w1)) \<and>
   (connect c w = (Inr u, c1, w1) \<longrightarrow>
      (call (GET (prefixKey c1 key)) (server w1) = (Inl err, s) \<longrightarrow>
         get rt c key w = (Inr JNull, c1, debug_log ''Redis get error:'' err (w1\<lparr>server := s\<rparr>))) \<and>
      (call (EXPIRE (prefixKey c1 key) n) (server w1) = (Inl err, s) \<longrightarrow>
         expire c key n w = (Inr False, c1, debug_log ''Redis expire error:'' err (w1\<lparr>server := s\<rparr>))) \<and>
      (call (EXISTS (prefixKey c1 key)) (server w1) = (Inl err, s) \<longrightarrow>
         exists c key w = (Inr False, c1, debug_log ''Redis exists error:'' err (w1\<lparr>server := s\<rparr>))))"
  by (simp add: get_def set_value_def del_def incr_def incrBy_def decr_def decrBy_def expire_def
      ttl_def exists_def zAdd_def zRemRangeByScore_def zCard_def zRange_def
      awaited_connect_fails returned_connect_fails awaited_command_fails)

theorem store_failure_defaults_witness:
  "connect (new_client None None) failing_world =
     (Inl (Error ''ECONNRESET''), new_client None None, empty_world) \<and>
   fst (get js (new_client None None) ''session'' failing_world) = Inr JNull \<and>
   fst (set_value js (new_client None None) ''session'' (JNum 1) None failing_world) = Inr None \<and>
   fst (incr (new_client None None) ''session'' failing_world) = Inr 0 \<and>
   fst (exists (new_client None None) ''session'' failing_world) = Inr False \<and>
   fst (ttl (new_client None None) ''session'' failing_world) = Inr (- 1) \<and>
   fst (zRange (new_client None None) ''session'' 0 (- 1) failing_world) = Inr [] \<and>
   connect sample_client failing_world = (Inr (), sample_client, failing_world) \<and>
   call (GET (prefixKey sample_client ''session'')) (server failing_world) =
     (Inl (Error ''ECONNRESET''), empty_redis) \<and>
   call (EXPIRE (prefixKey sample_client ''session'') 0) (server failing_world) =
     (Inl (Error ''ECONNRESET''), empty_redis) \<and>
   call (EXISTS (prefixKey sample_client ''session'')) (server failing_world) =
     (Inl (Error ''ECONNRESET''), empty_redis) \<and>
   get js sample_client ''session'' failing_world =
     (Inr JNull, sample_client,
      empty_world\<lparr>logged := [Line ''Redis get error:'' (Some (Error ''ECONNRESET''))]\<rparr>) \<and>
   fst (expire sample_client ''session'' 0 failing_world) = Inr False \<and>
   fst (exists sample_client ''session'' failing_world) = Inr False"
proof -
  have h1: "connect (new_client None None) failing_world =
     (Inl (Error ''ECONNRESET''), new_client None None, empty_world)"
    by (simp add: connect_def call_def sample_defs)
  have h2: "connect sample_client failing_world = (Inr (), sample_client, failing_world)"
    by (simp add: connect_def sample_defs)
  have h3: "call (GET (prefixKey sample_client ''session'')) (server failing_world) =
     (Inl (Error ''ECONNRESET''), empty_redis)"
    by (simp add: call_def sample_defs)
  have h4: "call (EXPIRE (prefixKey sample_client ''session'') 0) (server failing_world) =
     (Inl (Error ''ECONNRESET''), empty_redis)"
    by (simp add: call_def sample_defs)
  have h5: "call (EXISTS (prefixKey sample_client ''session'')) (server failing_world) =
     (Inl (Error ''ECONNRESET''), empty_redis)"
    by (simp add: call_def sample_defs)
  have e: "debug_log ''Redis get error:'' (Error ''ECONNRESET'') (failing_world\<lparr>server := empty_redis\<rparr>) =
      empty_world\<lparr>logged := [Line ''Redis get error:'' (Some (Error ''ECONNRESET''))]\<rparr>"
    by (simp add: debug_log_def sample_defs)
  show ?thesis
    using h1 h2 h3 h4 h5
      store_failure_defaults [of "new_client None None" failing_world "Error ''ECONNRESET''"
        "new_client None None" empty_world js "''session''" "JNum 1" None 0 "''m''" 0 "- 1"]
      store_failure_defaults [of sample_client failing_world "Error ''ECONNRESET''"
        sample_client failing_world js "''session''" "JNum 1" None 0 "''m''" 0 "- 1" "()" empty_redis]
    by (simp add: e)
qed

text \<open>
  The claim as stated fails for \<open>ttl\<close>: with the connection refused it resolves to
  \<open>-1\<close>, which is none of \<open>null\<close>, 0 and \<open>false\<close>.
\<close>

theorem store_failure_defaults_counterexample:
  "ttl (new_client None None) ''session'' failing_world =
     (Inr (- 1), new_client None None,
      empty_world\<lparr>logged := [Line ''Redis ttl error:'' (Some (Error ''ECONNRESET''))]\<rparr>) \<and>
   fst (ttl (new_client None None) ''session'' failing_world) \<noteq> Inr 0"
  by (simp add: ttl_def returned_def connect_def call_def debug_log_def sample_defs)

text \<open>
  Outside the amended claim: a method that returns the promise of the store call without
  awaiting it does not catch that call's rejection. With the connection up and the command
  failing, \<open>set\<close>, \<open>del\<close>, \<open>incr\<close>, \<open>ttl\<close> and \<open>zCard\<close> (and, written the same way,
  \<open>incrBy\<close>, \<open>decr\<close>, \<open>decrBy\<close>, \<open>zAdd\<close>, \<open>zRemRangeByScore\<close>, \<open>zRange\<close>) reject with the
  store's error, and nothing is logged.
\<close>

lemma unawaited_rejection_escapes:
  assumes "connect c w = (Inr u, c1, w1)"
  shows "call (SET (prefixKey c1 key) (JSON_stringify rt v)) (server w1) = (Inl err, s) \<Longrightarrow>
           (case extractTTL t (dateNow w1) of Some n \<Rightarrow> n | None \<Rightarrow> defaultTTL c1) \<le> 0 \<Longrightarrow>
           set_value rt c key v t w = (Inl err, c1, w1\<lparr>server := s\<rparr>)"
    and "call (DEL (prefixKey c1 key)) (server w1) = (Inl err, s) \<Longrightarrow>
           del c key w = (Inl err, c1, w1\<lparr>server := s\<rparr>)"
    and "call (INCRBY (prefixKey c1 key) 1) (server w1) = (Inl err, s) \<Longrightarrow>
           incr c key w = (Inl err, c1, w1\<lparr>server := s\<rparr>)"
    and "call (TTL (prefixKey c1 key)) (server w1) = (Inl err, s) \<Longrightarrow>
           ttl c key w = (Inl err, c1, w1\<lparr>server := s\<rparr>)"
    and "call (ZCARD (prefixKey c1 key)) (server w1) = (Inl err, s) \<Longrightarrow>
           zCard c key w = (Inl err, c1, w1\<lparr>server := s\<rparr>)"
  using assms
  by (simp_all add: set_value_def del_def incr_def ttl_def zCard_def returned_def Let_def)

lemma del_rejection_escapes_example:
  "del sample_client ''session'' failing_world = (Inl (Error ''ECONNRESET''), sample_client, empty_world)"
  by (simp add: del_def returned_def connect_def call_def sample_defs)

section \<open>Cache-through and soft delete\<close>

lemmas client_defs =
  get_def set_value_def del_def store_def fetch_def remove_def awaited_def returned_def
  connect_def debug_log_def prefixKey_def extractTTL_def DELETED_def

lemmas js_defs = js_def json_read_def quote_def backslash_def starts_with_def

lemma put_faults [simp]: "faults (put k e r) = faults r" "clock (put k e r) = clock r"
  by (simp_all add: put_def)

lemma entries_put_same [simp]: "entries (put k e r) k = Some e"
  by (simp add: put_def)

text \<open>What \<open>set\<close> does on a store that answers.\<close>

lemma set_value_healthy:
  assumes "faults (server w) = []"
  shows "\<exists>c1 w1. set_value rt c key v t w =
           (Inr (Some ''OK''), c1,
            w1\<lparr>server := put (prefix c @ key)
                   (RString (JSON_stringify rt v), expiry_for (ttl_seconds c t w) (server w)) (server w)\<rparr>)
         \<and> prefix c1 = prefix c \<and> defaultTTL c1 = defaultTTL c \<and> hits c1 = hits c
         \<and> misses c1 = misses c \<and> isConnected c1"
proof -
  from connect_healthy [OF assms, of c] obtain c1 w1 where
    c: "connect c w = (Inr (), c1, w1)" "prefix c1 = prefix c" "defaultTTL c1 = defaultTTL c"
       "hits c1 = hits c" "misses c1 = misses c" "isConnected c1"
       "server w1 = server w" "dateNow w1 = dateNow w"
    by blast
  have "set_value rt c key v t w =
           (Inr (Some ''OK''), c1,
            w1\<lparr>server := put (prefix c @ key)
                   (RString (JSON_stringify rt v), expiry_for (ttl_seconds c t w) (server w)) (server w)\<rparr>)"
    using c assms
    by (simp add: set_value_def returned_def Let_def prefixKey_def call_healthy SETEX_def SET_def
        expiry_for_def ttl_seconds_def split: option.splits)
  with c show ?thesis by blast
qed

text \<open>What \<open>get\<close> does on a store that answers, by what the key holds.\<close>

lemma get_healthy:
  assumes "faults (server w) = []"
  shows "\<exists>c1 w1. get rt c key w =
           (Inr (case lookup (server w) (prefix c @ key) of
                   None \<Rightarrow> JNull
                 | Some (RString d, _) \<Rightarrow> (case JSON_parse rt d of Some v \<Rightarrow> v | None \<Rightarrow> JStr d)
                 | Some (RZSet _, _) \<Rightarrow> JNull), c1, w1)
         \<and> prefix c1 = prefix c \<and> defaultTTL c1 = defaultTTL c \<and> hits c1 = hits c
         \<and> misses c1 = misses c \<and> isConnected c1
         \<and> entries (server w1) = entries (server w) \<and> clock (server w1) = clock (server w)
         \<and> faults (server w1) = []"
proof -
  from connect_healthy [OF assms, of c] obtain c1 w1 where
    c: "connect c w = (Inr (), c1, w1)" "prefix c1 = prefix c" "defaultTTL c1 = defaultTTL c"
       "hits c1 = hits c" "misses c1 = misses c" "isConnected c1"
       "server w1 = server w"
    by blast
  show ?thesis
  proof (cases "lookup (server w) (prefix c @ key)")
    case None
    with c assms have "get rt c key w = (Inr JNull, c1, w1\<lparr>server := server w\<rparr>)"
      by (simp add: get_def awaited_def prefixKey_def call_healthy GET_def)
    with c None assms show ?thesis by auto
  next
    case (Some e)
    obtain x d where e: "e = (x, d)" by (cases e)
    show ?thesis
    proof (cases x)
      case (RString str)
      with c assms Some e have "get rt c key w =
          (Inr (case JSON_parse rt str of Some v \<Rightarrow> v | None \<Rightarrow> JStr str), c1, w1\<lparr>server := server w\<rparr>)"
        by (simp add: get_def awaited_def prefixKey_def call_healthy GET_def)
      with c Some e RString assms show ?thesis by auto
    next
      case (RZSet zs)
      with c assms Some e have "get rt c key w =
          (Inr JNull, c1, debug_log ''Redis get error:'' WRONGTYPE (w1\<lparr>server := server w\<rparr>))"
        by (simp add: get_def awaited_def prefixKey_def call_healthy GET_def)
      with c Some e RZSet assms show ?thesis by (auto simp: debug_log_def)
    qed
  qed
qed

text \<open>
  Claim C8. For a value that \<open>JSON.parse\<close> reads back from its \<open>JSON.stringify\<close> text,
  on a store that answers, \<open>store\<close> followed by \<open>get\<close> on the same key returns the
  value, whatever \<open>ttl\<close> is given.
\<close>

theorem store_get_roundtrip:
  assumes "JSON_parse rt (JSON_stringify rt v) = Some v"
    and "faults (server w) = []"
  shows "fst (store rt c key v t w) = Inr (Some ''OK'') \<and>
         fst (get rt (fst (snd (store rt c key v t w))) key (snd (snd (store rt c key v t w)))) = Inr v"
proof -
  let ?e = "(RString (JSON_stringify rt v), expiry_for (ttl_seconds c (map_option Seconds t) w) (server w))"
  from set_value_healthy [OF assms(2), of rt c key v "map_option Seconds t"] obtain c1 w1 where
    s: "store rt c key v t w = (Inr (Some ''OK''), c1, w1\<lparr>server := put (prefix c @ key) ?e (server w)\<rparr>)"
       "prefix c1 = prefix c"
    unfolding store_def by blast
  let ?w2 = "w1\<lparr>server := put (prefix c @ key) ?e (server w)\<rparr>"
  have f: "faults (server ?w2) = []" using assms(2) by simp
  have l: "lookup (server ?w2) (prefix c1 @ key) = Some ?e"
    by (simp add: s(2) lookup_put_same expiry_for_def)
  from get_healthy [OF f, of rt c1 key] l assms(1) have "fst (get rt c1 key ?w2) = Inr v"
    by auto
  with s show ?thesis by simp
qed

theorem store_get_roundtrip_witness:
  "JSON_parse js (JSON_stringify js sample_value) = Some sample_value \<and>
   faults (server empty_world) = [] \<and>
   fst (store js (new_client None None) ''report'' sample_value (Some 60) empty_world) = Inr (Some ''OK'') \<and>
   fst (get js (fst (snd (store js (new_client None None) ''report'' sample_value (Some 60) empty_world)))
          ''report'' (snd (snd (store js (new_client None None) ''report'' sample_value (Some 60) empty_world)))) =
     Inr sample_value"
proof -
  have h1: "JSON_parse js (JSON_stringify js sample_value) = Some sample_value"
    by (simp add: js_defs sample_value_def String_of_int_def decimal.simps read_number_def
        string_to_int_def digit_value_def)
  have h2: "faults (server empty_world) = []"
    by (simp add: sample_defs)
  from store_get_roundtrip [OF h1 h2, of "new_client None None" "''report''" "Some 60"] h1 h2
  show ?thesis by simp
qed

lemma remove_soft_healthy:
  assumes "faults (server w) = []"
  shows "\<exists>c1 w1. remove rt c key True w =
           (Inr (Inl (Some ''OK'')), c1,
            w1\<lparr>server := put (prefix c @ key)
                   (RString (JSON_stringify rt (JStr DELETED)), expiry_for (defaultTTL c) (server w))
                   (server w)\<rparr>)"
proof -
  have t: "ttl_seconds c None w = defaultTTL c"
    by (simp add: ttl_seconds_def extractTTL_def)
  from set_value_healthy [OF assms, of rt c key "JStr DELETED" None] show ?thesis
    unfolding t by (auto simp: remove_def)
qed

lemma get_absent:
  assumes "lookup (server w) (prefix c @ key) = None"
  shows "\<exists>c1 w1. get rt c key w = (Inr JNull, c1, w1) \<and> hits c1 = hits c \<and> misses c1 = misses c"
proof -
  obtain res c1 w1 where cn: "connect c w = (res, c1, w1)"
    by (cases "connect c w") auto
  note p = connect_prefix [OF cn]
  show ?thesis
  proof (cases res)
    case (Inl e)
    with cn p show ?thesis by (simp add: get_def awaited_def)
  next
    case (Inr u)
    from cn Inr have "server w1 = server w \<or> server w1 = after_call (server w)"
      by (auto simp: connect_eq split: if_splits option.splits)
    with assms have l: "lookup (server w1) (prefix c1 @ key) = None"
      using p by auto
    then have "lookup (after_call (server w1)) (prefix c1 @ key) = None" by simp
    with cn Inr p show ?thesis
      by (auto simp: get_def awaited_def prefixKey_def call_eq GET_def split: option.splits)
  qed
qed

lemma set_value_stats:
  "set_value rt c key v t w = (res, c1, w1) \<Longrightarrow> hits c1 = hits c \<and> misses c1 = misses c"
  by (auto simp: set_value_def returned_def split: prod.splits sum.splits dest: connect_prefix)

lemma fetch_miss:
  assumes "get rt c key w = (Inr JNull, c1, w1)" "hits c1 = hits c" "misses c1 = misses c"
  shows "(case fetch rt c key (Some f) t q w of
            (res, c', q', w') \<Rightarrow> misses c' = misses c + 1 \<and> hits c' = hits c \<and> q' = snd (f q))"
proof -
  obtain r q1 where fq: "f q = (r, q1)" by (cases "f q")
  show ?thesis
  proof (cases r)
    case (Inl e)
    with assms fq show ?thesis by (simp add: fetch_def)
  next
    case (Inr x)
    show ?thesis
    proof (cases x)
      case None
      with assms fq Inr show ?thesis by (simp add: fetch_def)
    next
      case (Some data)
      show ?thesis
      proof (cases "data = JNull")
        case True
        with assms fq Inr Some show ?thesis by (simp add: fetch_def)
      next
        case False
        obtain sr c3 w3 where st: "set_value rt (c1\<lparr>misses := misses c1 + 1\<rparr>) key data (map_option Seconds t) w1 = (sr, c3, w3)"
          by (cases "set_value rt (c1\<lparr>misses := misses c1 + 1\<rparr>) key data (map_option Seconds t) w1") auto
        from set_value_stats [OF st] have "hits c3 = hits c1" "misses c3 = misses c1 + 1" by simp_all
        with assms fq Inr Some False st show ?thesis
          by (cases data; cases sr) (simp_all add: fetch_def store_def Let_def)
      qed
    qed
  qed
qed

text \<open>
  Claim C4, as amended. After \<open>remove\<close> with \<open>soft = true\<close> on a store that answers,
  every \<open>fetch\<close> of the key, by any client of the same prefix, returns \<open>null\<close>, adds one
  to the hits and none to the misses, and does not invoke the caller's \<open>query\<close>, as long
  as the key still holds what \<open>remove\<close> wrote (no hard delete, no overwrite), the store
  answers, and less than \<open>defaultTTL\<close> seconds have passed when \<open>defaultTTL\<close> is positive.
  The fetch leaves the key and the clock as they are, so the same holds for the next one.
\<close>

theorem soft_delete_hides:
  assumes "JSON_parse rt (JSON_stringify rt (JStr DELETED)) = Some (JStr DELETED)"
    and "faults (server w) = []"
    and "entries (server w2) (prefix c @ key) =
           entries (server (snd (snd (remove rt c key True w)))) (prefix c @ key)"
    and "clock (server w2) = clock (server w) + d"
    and "0 < defaultTTL c \<longrightarrow> d < defaultTTL c"
    and "faults (server w2) = []"
    and "prefix c2 = prefix c"
  shows "fst (remove rt c key True w) = Inr (Inl (Some ''OK'')) \<and>
         (case fetch rt c2 key query t q w2 of
            (res, c', q', w') \<Rightarrow>
              res = Inr (Some JNull) \<and> hits c' = hits c2 + 1 \<and> misses c' = misses c2 \<and> q' = q \<and>
              entries (server w') = entries (server w2) \<and> clock (server w') = clock (server w2) \<and>
              faults (server w') = [] \<and> prefix c' = prefix c2)"
proof -
  let ?pk = "prefix c @ key"
  let ?tomb = "RString (JSON_stringify rt (JStr DELETED))"
  from remove_soft_healthy [OF assms(2), of rt c key] obtain c1 w1 where
    rm: "remove rt c key True w =
           (Inr (Inl (Some ''OK'')), c1,
            w1\<lparr>server := put ?pk (?tomb, expiry_for (defaultTTL c) (server w)) (server w)\<rparr>)"
    by blast
  with assms(3) have e: "entries (server w2) ?pk = Some (?tomb, expiry_for (defaultTTL c) (server w))"
    by simp
  have l: "lookup (server w2) (prefix c2 @ key) = Some (?tomb, expiry_for (defaultTTL c) (server w))"
    using e assms(4,5,7) by (simp add: lookup_def expiry_for_def)
  from get_healthy [OF assms(6), of rt c2 key] obtain c3 w3 where
    g: "get rt c2 key w2 = (Inr (JStr DELETED), c3, w3)" "prefix c3 = prefix c2" "hits c3 = hits c2"
       "misses c3 = misses c2" "entries (server w3) = entries (server w2)"
       "clock (server w3) = clock (server w2)" "faults (server w3) = []"
    using l assms(1) by auto
  then have "fetch rt c2 key query t q w2 = (Inr (Some JNull), c3\<lparr>hits := hits c3 + 1\<rparr>, q, w3)"
    by (simp add: fetch_def)
  with g rm show ?thesis by simp
qed

theorem soft_delete_hides_witness:
  "JSON_parse js (JSON_stringify js (JStr DELETED)) = Some (JStr DELETED) \<and>
   faults (server empty_world) = [] \<and>
   clock (server (later 3599 (snd (snd (remove js (new_client None None) ''user:123'' True empty_world))))) =
     clock (server empty_world) + 3599 \<and>
   (3599 :: int) < defaultTTL (new_client None None) \<and>
   faults (server (later 3599 (snd (snd (remove js (new_client None None) ''user:123'' True empty_world))))) = [] \<and>
   prefix sample_client = prefix (new_client None None) \<and>
   (case fetch js sample_client ''user:123'' (Some counting_query) None 0
           (later 3599 (snd (snd (remove js (new_client None None) ''user:123'' True empty_world)))) of
      (res, c', q', w') \<Rightarrow> res = Inr (Some JNull) \<and> hits c' = 1 \<and> misses c' = 0 \<and> q' = 0)"
proof -
  let ?w1 = "snd (snd (remove js (new_client None None) ''user:123'' True empty_world))"
  have h1: "JSON_parse js (JSON_stringify js (JStr DELETED)) = Some (JStr DELETED)"
    by (simp add: js_defs DELETED_def)
  have h2: "faults (server empty_world) = []"
    by (simp add: sample_defs)
  have h3: "entries (server (later 3599 ?w1)) (prefix (new_client None None) @ ''user:123'') =
      entries (server ?w1) (prefix (new_client None None) @ ''user:123'')"
    by (simp add: later_def elapse_def)
  have h4: "clock (server (later 3599 ?w1)) = clock (server empty_world) + 3599"
    by (simp add: client_defs store_defs sample_defs later_def elapse_def Let_def)
  have h5: "0 < defaultTTL (new_client None None) \<longrightarrow> 3599 < defaultTTL (new_client None None)"
    by (simp add: sample_defs)
  have h6: "faults (server (later 3599 ?w1)) = []"
    by (simp add: client_defs store_defs sample_defs later_def elapse_def Let_def)
  have h7: "prefix sample_client = prefix (new_client None None)"
    by (simp add: sample_defs)
  have z: "hits sample_client = 0" "misses sample_client = 0" "defaultTTL (new_client None None) = 3600"
    by (simp_all add: sample_defs)
  from soft_delete_hides [OF h1 h2 h3 h4 h5 h6 h7, where query = "Some counting_query" and t = None
      and q = "0 :: nat"]
    h1 h2 h4 h6 h7
  show ?thesis by (simp add: z split: prod.splits)
qed

text \<open>
  The claim as stated fails once the tombstone has expired: 3600 seconds after the soft
  delete, with no hard delete and no overwrite, \<open>fetch\<close> counts a miss, invokes
  \<open>query\<close> and returns what it computed.
\<close>

theorem soft_delete_counterexample:
  "(case remove js (new_client None None) ''user:123'' True empty_world of
      (removed, c1, w1) \<Rightarrow>
        removed = Inr (Inl (Some ''OK'')) \<and>
        (case fetch js c1 ''user:123'' (Some counting_query) None 0 (later 3600 w1) of
           (res, c2, q, w2) \<Rightarrow>
             res = Inr (Some (JNum 7)) \<and> hits c2 = 0 \<and> misses c2 = 1 \<and> q = 1))"
  by (simp add: client_defs js_defs store_defs sample_defs later_def elapse_def counting_query_def Let_def)

text \<open>
  Claim C9, as amended. \<open>remove\<close> with \<open>soft = true\<close> writes the tombstone through
  \<open>set\<close> with no \<open>ttl\<close> argument. When \<open>defaultTTL\<close> is positive the tombstone expires
  \<open>defaultTTL\<close> seconds after the write, and from then on, with no hard delete and no
  overwrite, \<open>fetch\<close> counts a miss and invokes \<open>query\<close>, whether the store answers or
  not. When \<open>defaultTTL\<close> is zero or negative the tombstone is written with no expiry.
\<close>

theorem tombstone_expiry:
  assumes "faults (server w) = []"
  shows "(let pk = prefix c @ key;
              w1 = snd (snd (remove rt c key True w));
              tomb = RString (JSON_stringify rt (JStr DELETED))
          in fst (remove rt c key True w) = Inr (Inl (Some ''OK'')) \<and>
             (0 < defaultTTL c \<longrightarrow>
                entries (server w1) pk = Some (tomb, Some (clock (server w) + defaultTTL c))) \<and>
             (defaultTTL c \<le> 0 \<longrightarrow> entries (server w1) pk = Some (tomb, None)) \<and>
             (0 < defaultTTL c \<and> entries (server w2) pk = entries (server w1) pk \<and>
              clock (server w2) = clock (server w) + d \<and> defaultTTL c \<le> d \<and> prefix c2 = prefix c \<longrightarrow>
                (case fetch rt c2 key (Some f) t q w2 of
                   (res, c', q', w') \<Rightarrow>
                     misses c' = misses c2 + 1 \<and> hits c' = hits c2 \<and> q' = snd (f q))))"
proof -
  let ?pk = "prefix c @ key"
  let ?tomb = "RString (JSON_stringify rt (JStr DELETED))"
  from remove_soft_healthy [OF assms, of rt c key] obtain c1 w1 where
    rm: "remove rt c key True w =
           (Inr (Inl (Some ''OK'')), c1,
            w1\<lparr>server := put ?pk (?tomb, expiry_for (defaultTTL c) (server w)) (server w)\<rparr>)"
    by blast
  have miss: "(case fetch rt c2 key (Some f) t q w2 of
                   (res, c', q', w') \<Rightarrow>
                     misses c' = misses c2 + 1 \<and> hits c' = hits c2 \<and> q' = snd (f q))"
    if h: "0 < defaultTTL c" "entries (server w2) ?pk = Some (?tomb, Some (clock (server w) + defaultTTL c))"
      "clock (server w2) = clock (server w) + d" "defaultTTL c \<le> d" "prefix c2 = prefix c"
  proof -
    have "lookup (server w2) (prefix c2 @ key) = None"
      using h by (simp add: lookup_def)
    from get_absent [OF this, of rt] obtain c3 w3 where
      "get rt c2 key w2 = (Inr JNull, c3, w3)" "hits c3 = hits c2" "misses c3 = misses c2"
      by blast
    then show ?thesis by (rule fetch_miss)
  qed
  show ?thesis
    unfolding Let_def using miss by (simp add: rm expiry_for_def)
qed

theorem tombstone_expiry_witness:
  "faults (server empty_world) = [] \<and>
   0 < defaultTTL (new_client None None) \<and>
   clock (server (later 3600 (snd (snd (remove js (new_client None None) ''user:123'' True empty_world))))) =
     clock (server empty_world) + 3600 \<and>
   defaultTTL (new_client None None) \<le> 3600 \<and>
   entries (server (snd (snd (remove js (new_client None None) ''user:123'' True empty_world))))
     ''entrolytics:user:123'' = Some (RString (JSON_stringify js (JStr DELETED)), Some 3600) \<and>
   (case fetch js sample_client ''user:123'' (Some counting_query) None 0
           (later 3600 (snd (snd (remove js (new_client None None) ''user:123'' True empty_world)))) of
      (res, c', q', w') \<Rightarrow> hits c' = 0 \<and> misses c' = 1 \<and> q' = 1) \<and>
   defaultTTL (new_client None (Some 0)) \<le> 0 \<and>
   entries (server (snd (snd (remove js (new_client None (Some 0)) ''user:123'' True empty_world))))
     ''entrolytics:user:123'' = Some (RString (JSON_stringify js (JStr DELETED)), None)"
proof -
  let ?w1 = "snd (snd (remove js (new_client None None) ''user:123'' True empty_world))"
  have h2: "faults (server empty_world) = []"
    by (simp add: sample_defs)
  have h3: "entries (server (later 3600 ?w1)) (prefix (new_client None None) @ ''user:123'') =
      entries (server ?w1) (prefix (new_client None None) @ ''user:123'')"
    by (simp add: later_def elapse_def)
  have h4: "clock (server (later 3600 ?w1)) = clock (server empty_world) + 3600"
    by (simp add: client_defs store_defs sample_defs later_def elapse_def Let_def)
  have z: "hits sample_client = 0" "misses sample_client = 0" "defaultTTL (new_client None None) = 3600"
    "prefix sample_client = prefix (new_client None None)" "prefix (new_client None None) = ''entrolytics:''"
    "clock (server empty_world) = 0" "snd (counting_query 0) = 1"
    "defaultTTL (new_client None (Some 0)) = 0" "prefix (new_client None (Some 0)) = ''entrolytics:''"
    by (simp_all add: sample_defs counting_query_def)
  from tombstone_expiry [OF h2, where c = "new_client None None" and key = "''user:123''" and rt = js
      and ?w2.0 = "later 3600 ?w1" and d = 3600 and ?c2.0 = sample_client and f = counting_query
      and t = None and q = "0 :: nat"]
    tombstone_expiry [OF h2, where c = "new_client None (Some 0)" and key = "''user:123''" and rt = js]
    h2 h3 h4
  show ?thesis by (simp add: z Let_def split: prod.splits)
qed

text \<open>
  The claim as stated fails for a client configured with \<open>defaultTTL = 0\<close>: the
  tombstone never expires, and a million seconds later \<open>fetch\<close> still returns \<open>null\<close>
  as a hit without invoking \<open>query\<close>.
\<close>

theorem tombstone_counterexample:
  "(case remove js (new_client None (Some 0)) ''user:123'' True empty_world of
      (removed, c1, w1) \<Rightarrow>
        removed = Inr (Inl (Some ''OK'')) \<and>
        defaultTTL c1 = 0 \<and>
        (case fetch js c1 ''user:123'' (Some counting_query) None 0 (later 1000000 w1) of
           (res, c2, q, w2) \<Rightarrow>
             res = Inr (Some JNull) \<and> hits c2 = 1 \<and> misses c2 = 0 \<and> q = 0))"
  by (simp add: client_defs js_defs store_defs sample_defs later_def elapse_def counting_query_def Let_def)

section \<open>The counter limiter\<close>

lemma lookup_put_expiry: "lookup (put k (v, expiry r k) r) k = Some (v, expiry r k)"
  by (auto simp: lookup_def put_def expiry_def split: option.splits prod.splits if_splits)

lemma INCRBY_counter:
  assumes "counter r k = Some n" "n + 1 < 2 ^ 63"
  shows "INCRBY k 1 r = (Inr (n + 1), put k (RString (String_of_int (n + 1)), expiry r k) r)"
proof (cases "lookup r k")
  case None
  with assms show ?thesis by (simp add: INCRBY_def counter_def expiry_def)
next
  case (Some e)
  obtain x d where e: "e = (x, d)" by (cases e)
  show ?thesis
  proof (cases x)
    case (RString str)
    with assms Some e show ?thesis
      by (auto simp: INCRBY_def counter_def expiry_def split: option.splits if_splits)
  next
    case (RZSet zs)
    with assms Some e show ?thesis by (simp add: counter_def)
  qed
qed

lemma counter_success:
  assumes h: "faults (server w) = []" "counter (server w) (prefix c @ ''ratelimit:'' @ key) = Some n"
    "n + 1 < 2 ^ 63" "0 < windowSeconds"
  shows "fst (client_rateLimit c key lmt windowSeconds w) = Inr (lmt < n + 1) \<and>
         lookup (server (snd (snd (client_rateLimit c key lmt windowSeconds w)))) (prefix c @ ''ratelimit:'' @ key) =
           Some (RString (String_of_int (n + 1)),
                 if n + 1 = 1 then Some (clock (server w) + windowSeconds)
                 else expiry (server w) (prefix c @ ''ratelimit:'' @ key))"
proof -
  let ?k = "prefix c @ ''ratelimit:'' @ key"
  let ?s = "put ?k (RString (String_of_int (n + 1)), expiry (server w) ?k) (server w)"
  from connect_healthy [OF h(1), of c] obtain c1 w1 where
    c: "connect c w = (Inr (), c1, w1)" "prefix c1 = prefix c" "server w1 = server w"
    by blast
  have i: "call (INCRBY ?k 1) (server w) = (Inr (n + 1), ?s)"
    using h by (simp add: call_healthy INCRBY_counter)
  have f: "faults ?s = []" using h(1) by simp
  show ?thesis
  proof (cases "n + 1 = 1")
    case True
    have "call (EXPIRE ?k windowSeconds) ?s =
            (Inr 1, put ?k (RString (String_of_int (n + 1)), Some (clock (server w) + windowSeconds)) ?s)"
      using h(4) call_healthy [OF f, of "EXPIRE ?k windowSeconds"]
      by (simp add: EXPIRE_def lookup_put_expiry)
    with c i True h(4) show ?thesis
      by (simp add: client_rateLimit_def prefixKey_def Let_def lookup_put_same)
  next
    case False
    with c i show ?thesis
      by (simp add: client_rateLimit_def prefixKey_def Let_def lookup_put_expiry)
  qed
qed

text \<open>
  Claim C6. \<open>rateLimit\<close> of the class increments the counter of the key with one
  \<open>INCR\<close>. When the value after the increment is 1 it sets the expiry of the key to
  \<open>windowSeconds\<close>, and for any other value it issues no further command. It resolves to
  \<open>true\<close> exactly when the value after the increment exceeds \<open>limit\<close>. When connecting,
  the increment or the expiry fails, it resolves to \<open>false\<close>. On a store that answers,
  with the counter at \<open>n\<close>, the key then holds \<open>n + 1\<close> and expires \<open>windowSeconds\<close>
  from now if \<open>n + 1 = 1\<close>, and when it did before otherwise.
\<close>

theorem counter_limiter:
  "(let k = prefix c @ ''ratelimit:'' @ key;
        R = client_rateLimit c key lmt windowSeconds w
    in (connect c w = (Inl err, c1, w1) \<longrightarrow> fst R = Inr False) \<and>
       (connect c w = (Inr u, c1, w1) \<and> call (INCRBY k 1) (server w1) = (Inl err, s) \<longrightarrow>
          fst R = Inr False) \<and>
       (connect c w = (Inr u, c1, w1) \<and> call (INCRBY k 1) (server w1) = (Inr 1, s) \<and>
        call (EXPIRE k windowSeconds) s = (Inl err, s2) \<longrightarrow>
          fst R = Inr False) \<and>
       (connect c w = (Inr u, c1, w1) \<and> call (INCRBY k 1) (server w1) = (Inr 1, s) \<and>
        call (EXPIRE k windowSeconds) s = (Inr x, s2) \<longrightarrow>
          fst R = Inr (1 > lmt) \<and> server (snd (snd R)) = s2) \<and>
       (connect c w = (Inr u, c1, w1) \<and> call (INCRBY k 1) (server w1) = (Inr current, s) \<and>
        current \<noteq> 1 \<longrightarrow>
          fst R = Inr (current > lmt) \<and> server (snd (snd R)) = s) \<and>
       (faults (server w) = [] \<and> counter (server w) k = Some n \<and> n + 1 < 2 ^ 63 \<and>
        0 < windowSeconds \<longrightarrow>
          fst R = Inr (n + 1 > lmt) \<and>
          lookup (server (snd (snd R))) k =
            Some (RString (String_of_int (n + 1)),
                  if n + 1 = 1 then Some (clock (server w) + windowSeconds)
                  else expiry (server w) k)))"
proof -
  have a: "fst (client_rateLimit c key lmt windowSeconds w) = Inr False"
    if "connect c w = (Inl err, c1, w1)"
    using that by (simp add: client_rateLimit_def)
  have b: "fst (client_rateLimit c key lmt windowSeconds w) = Inr False"
    if "connect c w = (Inr u, c1, w1)"
      "call (INCRBY (prefix c @ ''ratelimit:'' @ key) 1) (server w1) = (Inl err, s)"
    using that connect_prefix [OF that(1)] by (simp add: client_rateLimit_def prefixKey_def)
  have d: "fst (client_rateLimit c key lmt windowSeconds w) = Inr False"
    if "connect c w = (Inr u, c1, w1)"
      "call (INCRBY (prefix c @ ''ratelimit:'' @ key) 1) (server w1) = (Inr 1, s)"
      "call (EXPIRE (prefix c @ ''ratelimit:'' @ key) windowSeconds) s = (Inl err, s2)"
    using that connect_prefix [OF that(1)] by (simp add: client_rateLimit_def prefixKey_def)
  have e: "fst (client_rateLimit c key lmt windowSeconds w) = Inr (1 > lmt) \<and>
           server (snd (snd (client_rateLimit c key lmt windowSeconds w))) = s2"
    if "connect c w = (Inr u, c1, w1)"
      "call (INCRBY (prefix c @ ''ratelimit:'' @ key) 1) (server w1) = (Inr 1, s)"
      "call (EXPIRE (prefix c @ ''ratelimit:'' @ key) windowSeconds) s = (Inr x, s2)"
    using that connect_prefix [OF that(1)] by (simp add: client_rateLimit_def prefixKey_def)
  have f: "fst (client_rateLimit c key lmt windowSeconds w) = Inr (current > lmt) \<and>
           server (snd (snd (client_rateLimit c key lmt windowSeconds w))) = s"
    if "connect c w = (Inr u, c1, w1)"
      "call (INCRBY (prefix c @ ''ratelimit:'' @ key) 1) (server w1) = (Inr current, s)"
      "current \<noteq> 1"
    using that connect_prefix [OF that(1)] by (simp add: client_rateLimit_def prefixKey_def)
  note g = counter_success [of w c key n windowSeconds lmt]
  show ?thesis
    unfolding Let_def using a b d e f g by blast
qed

theorem counter_limiter_witness:
  "faults (server empty_world) = [] \<and>
   counter (server empty_world) (prefix (new_client None None) @ ''ratelimit:'' @ ''api:1.2.3.4'') = Some 0 \<and>
   fst (client_rateLimit (new_client None None) ''api:1.2.3.4'' 2 60 empty_world) = Inr False \<and>
   fst (client_rateLimit (new_client None None) ''api:1.2.3.4'' 0 60 empty_world) = Inr True \<and>
   lookup (server (snd (snd (client_rateLimit (new_client None None) ''api:1.2.3.4'' 2 60 empty_world))))
     ''entrolytics:ratelimit:api:1.2.3.4'' = Some (RString ''1'', Some 60) \<and>
   connect (new_client None None) failing_world =
     (Inl (Error ''ECONNRESET''), new_client None None, empty_world) \<and>
   fst (client_rateLimit (new_client None None) ''api:1.2.3.4'' 0 60 failing_world) = Inr False \<and>
   connect sample_client failing_world = (Inr (), sample_client, failing_world) \<and>
   call (INCRBY ''entrolytics:ratelimit:api:1.2.3.4'' 1) (server failing_world) =
     (Inl (Error ''ECONNRESET''), empty_redis) \<and>
   fst (client_rateLimit sample_client ''api:1.2.3.4'' 0 60 failing_world) = Inr False \<and>
   connect sample_client flaky_world = (Inr (), sample_client, flaky_world) \<and>
   fst (call (INCRBY ''entrolytics:ratelimit:api:1.2.3.4'' 1) (server flaky_world)) = Inr 1 \<and>
   fst (call (EXPIRE ''entrolytics:ratelimit:api:1.2.3.4'' 60)
          (snd (call (INCRBY ''entrolytics:ratelimit:api:1.2.3.4'' 1) (server flaky_world)))) =
     Inl (Error ''ECONNRESET'') \<and>
   fst (client_rateLimit sample_client ''api:1.2.3.4'' 0 60 flaky_world) = Inr False"
proof -
  have h1: "faults (server empty_world) = []"
    by (simp add: sample_defs)
  have h2: "counter (server empty_world) (prefix (new_client None None) @ ''ratelimit:'' @ ''api:1.2.3.4'') = Some 0"
    by (simp add: counter_def lookup_def sample_defs)
  have h3: "connect (new_client None None) failing_world =
     (Inl (Error ''ECONNRESET''), new_client None None, empty_world)"
    by (simp add: connect_def call_def sample_defs)
  have h4: "connect sample_client failing_world = (Inr (), sample_client, failing_world)"
    by (simp add: connect_def sample_defs)
  have h5: "call (INCRBY ''entrolytics:ratelimit:api:1.2.3.4'' 1) (server failing_world) =
     (Inl (Error ''ECONNRESET''), empty_redis)"
    by (simp add: call_def sample_defs)
  have h6: "connect sample_client flaky_world = (Inr (), sample_client, flaky_world)"
    by (simp add: connect_def sample_defs)
  obtain s where h7: "call (INCRBY ''entrolytics:ratelimit:api:1.2.3.4'' 1) (server flaky_world) = (Inr 1, s)"
    by (simp add: store_defs sample_defs flaky_world_def)
  obtain s2 where h8: "call (EXPIRE ''entrolytics:ratelimit:api:1.2.3.4'' 60) s = (Inl (Error ''ECONNRESET''), s2)"
    using h7 by (auto simp: store_defs sample_defs flaky_world_def)
  have p: "prefix (new_client None None) = ''entrolytics:''" "clock (server empty_world) = 0"
    "prefix sample_client = ''entrolytics:''"
    by (simp_all add: sample_defs)
  show ?thesis
    using h1 h2 h3 h4 h5 h6 h7 h8
      counter_limiter [where c = "new_client None None" and key = "''api:1.2.3.4''" and lmt = 2
        and windowSeconds = 60 and w = empty_world and n = 0]
      counter_limiter [where c = "new_client None None" and key = "''api:1.2.3.4''" and lmt = 0
        and windowSeconds = 60 and w = empty_world and n = 0]
      counter_limiter [where c = "new_client None None" and key = "''api:1.2.3.4''" and lmt = 0
        and windowSeconds = 60 and w = failing_world and err = "Error ''ECONNRESET''"
        and ?c1.0 = "new_client None None" and ?w1.0 = empty_world]
      counter_limiter [where c = sample_client and key = "''api:1.2.3.4''" and lmt = 0
        and windowSeconds = 60 and w = failing_world and err = "Error ''ECONNRESET''"
        and ?c1.0 = sample_client and ?w1.0 = failing_world and u = "()" and s = empty_redis]
      counter_limiter [where c = sample_client and key = "''api:1.2.3.4''" and lmt = 0
        and windowSeconds = 60 and w = flaky_world and err = "Error ''ECONNRESET''"
        and ?c1.0 = sample_client and ?w1.0 = flaky_world and u = "()" and s = s and ?s2.0 = s2]
    by (simp add: Let_def p String_of_int_def decimal.simps)
qed

end
